theory Spec2Isabelle
  imports Complex_Main
begin

section \<open>Values and exceptions of the weather ETL pipeline\<close>

text \<open>
  The pipeline of \<^verbatim>\<open>flows/weather_etl.py\<close> works on the dictionaries that
  \<^verbatim>\<open>response.json()\<close> returns. They are modelled as JSON values; the type
  parameter \<open>'n\<close> stands for Python's numbers (\<^verbatim>\<open>int\<close> and \<^verbatim>\<open>float\<close>), whose
  arithmetic is taken as a parameter (record \<open>pylib\<close> below), so that nothing
  is assumed about floating point.  A \<open>JObj\<close> is a parsed dictionary in
  insertion order; its keys are distinct and a lookup takes the binding found
  first.
\<close>

datatype 'n json =
    JNull
  | JBool bool
  | JNum 'n
  | JStr string
  | JArr "'n json list"
  | JObj "(string \<times> 'n json) list"

text \<open>
  Every exception the code can meet is a subclass of Python's \<^verbatim>\<open>Exception\<close>.
  \<open>RequestException\<close> is a transport failure of \<^verbatim>\<open>requests\<close> (connection
  error, timeout), \<open>HTTPError\<close> what \<^verbatim>\<open>raise_for_status\<close> raises, and
  \<open>JSONDecodeError\<close> what \<^verbatim>\<open>response.json()\<close> raises on a body that is not
  JSON.
\<close>

datatype error =
    KeyError
  | IndexError
  | TypeError
  | ValueError
  | AttributeError
  | OverflowError
  | RequestException
  | HTTPError nat
  | JSONDecodeError
  | S3Error
  | ClickHouseError

text \<open>Sequencing of computations that may raise.\<close>

definition bind :: "error + 'a \<Rightarrow> ('a \<Rightarrow> error + 'b) \<Rightarrow> error + 'b" where
  "bind m f = (case m of Inl e \<Rightarrow> Inl e | Inr x \<Rightarrow> f x)"

subsection \<open>Dates and times\<close>

record pydate =
  year :: nat
  month :: nat
  day :: nat

record pydatetime =
  dt_date :: pydate
  hour_of :: nat
  minute_of :: nat
  second_of :: nat
  microsecond_of :: nat

definition is_leap :: "nat \<Rightarrow> bool" where
  "is_leap y = (y mod 4 = 0 \<and> (y mod 100 \<noteq> 0 \<or> y mod 400 = 0))"

definition days_in_month :: "nat \<Rightarrow> nat \<Rightarrow> nat" where
  "days_in_month y m =
     (if m = 2 then (if is_leap y then 29 else 28)
      else if m = 4 \<or> m = 6 \<or> m = 9 \<or> m = 11 then 30 else 31)"

text \<open>The values a Python \<^verbatim>\<open>date\<close> or \<^verbatim>\<open>datetime\<close> object can hold.\<close>

definition valid_date :: "pydate \<Rightarrow> bool" where
  "valid_date d =
     (1 \<le> year d \<and> year d \<le> 9999 \<and> 1 \<le> month d \<and> month d \<le> 12 \<and>
      1 \<le> day d \<and> day d \<le> days_in_month (year d) (month d))"


text \<open>
  \<^verbatim>\<open>d + timedelta(days=1)\<close>: the next calendar day; beyond 9999-12-31
  Python raises \<^verbatim>\<open>OverflowError\<close>.
\<close>

definition add_one_day :: "pydate \<Rightarrow> error + pydate" where
  "add_one_day d =
     (if day d < days_in_month (year d) (month d)
        then Inr (d\<lparr>day := day d + 1\<rparr>)
      else if month d < 12
        then Inr (d\<lparr>month := month d + 1, day := 1\<rparr>)
      else if year d < 9999
        then Inr \<lparr>year = year d + 1, month = 1, day = 1\<rparr>
      else Inl OverflowError)"

text \<open>Decimal fields of a fixed width, filled with zeros on the left.\<close>

definition digit_char :: "nat \<Rightarrow> char" where
  "digit_char n = char_of (48 + n mod 10)"

definition pad2 :: "nat \<Rightarrow> string" where
  "pad2 n = [digit_char (n div 10), digit_char n]"

definition pad4 :: "nat \<Rightarrow> string" where
  "pad4 n = [digit_char (n div 1000), digit_char (n div 100),
             digit_char (n div 10), digit_char n]"


text \<open>
  \<^verbatim>\<open>strftime('%Y-%m-%d')\<close> and \<^verbatim>\<open>strftime('%Y%m%d_%H%M%S')\<close>.  The C library
  pads \<^verbatim>\<open>%Y\<close> to four digits from the year 1000 on; the theorems on these
  functions are stated for such years.
\<close>

definition strftime_ymd :: "pydate \<Rightarrow> string" where
  "strftime_ymd d = pad4 (year d) @ ''-'' @ pad2 (month d) @ ''-'' @ pad2 (day d)"



text \<open>
  \<^verbatim>\<open>datetime.strptime(s, '%Y-%m-%d')\<close>.  The format compiles to the pattern
  \<^verbatim>\<open>(\d\d\d\d)-(1[0-2]|0[1-9]|[1-9])-(3[01]|[12]\d|0[1-9]|[1-9]| [1-9])\<close>, which
  must match the whole string; the fields then have to form a date.
\<close>

definition is_digit :: "char \<Rightarrow> bool" where
  "is_digit c = (48 \<le> (of_char c :: nat) \<and> (of_char c :: nat) \<le> 57)"

definition digit_val :: "char \<Rightarrow> nat" where
  "digit_val c = of_char c - 48"

fun split_on :: "char \<Rightarrow> string \<Rightarrow> string list" where
  "split_on sep [] = [[]]"
| "split_on sep (c # cs) =
     (if c = sep then [] # split_on sep cs
      else (case split_on sep cs of
              [] \<Rightarrow> [[c]]
            | f # fs \<Rightarrow> (c # f) # fs))"

definition parse_year :: "string \<Rightarrow> nat option" where
  "parse_year f =
     (case f of
        [a, b, c, d] \<Rightarrow>
          if is_digit a \<and> is_digit b \<and> is_digit c \<and> is_digit d
          then Some (1000 * digit_val a + 100 * digit_val b + 10 * digit_val c + digit_val d)
          else None
      | _ \<Rightarrow> None)"

definition parse_month :: "string \<Rightarrow> nat option" where
  "parse_month f =
     (case f of
        [a] \<Rightarrow> if is_digit a \<and> a \<noteq> CHR ''0'' then Some (digit_val a) else None
      | [a, b] \<Rightarrow>
          if a = CHR ''1'' \<and> is_digit b \<and> digit_val b \<le> 2 then Some (10 + digit_val b)
          else if a = CHR ''0'' \<and> is_digit b \<and> b \<noteq> CHR ''0'' then Some (digit_val b)
          else None
      | _ \<Rightarrow> None)"

definition parse_day :: "string \<Rightarrow> nat option" where
  "parse_day f =
     (case f of
        [a] \<Rightarrow> if is_digit a \<and> a \<noteq> CHR ''0'' then Some (digit_val a) else None
      | [a, b] \<Rightarrow>
          if a = CHR ''3'' \<and> is_digit b \<and> digit_val b \<le> 1 then Some (30 + digit_val b)
          else if (a = CHR ''1'' \<or> a = CHR ''2'') \<and> is_digit b
            then Some (10 * digit_val a + digit_val b)
          else if (a = CHR ''0'' \<or> a = CHR '' '') \<and> is_digit b \<and> b \<noteq> CHR ''0''
            then Some (digit_val b)
          else None
      | _ \<Rightarrow> None)"

definition strptime_ymd :: "string \<Rightarrow> error + pydate" where
  "strptime_ymd s =
     (case split_on CHR ''-'' s of
        [fy, fm, fd] \<Rightarrow>
          (case (parse_year fy, parse_month fm, parse_day fd) of
             (Some y, Some m, Some d) \<Rightarrow>
               if valid_date \<lparr>year = y, month = m, day = d\<rparr>
               then Inr \<lparr>year = y, month = m, day = d\<rparr> else Inl ValueError
           | _ \<Rightarrow> Inl ValueError)
      | _ \<Rightarrow> Inl ValueError)"

subsection \<open>Library behaviour taken as a parameter\<close>

text \<open>
  What the interpreter and the standard library compute on numbers and on
  text: \<open>num_add\<close> is \<^verbatim>\<open>x + y\<close> (mixing a huge \<^verbatim>\<open>int\<close> with a \<^verbatim>\<open>float\<close>
  raises), \<open>num_half\<close> is \<^verbatim>\<open>x / 2\<close>, \<open>num_round1\<close> is \<^verbatim>\<open>round(x, 1)\<close>,
  \<open>num_of_bool\<close> reads \<^verbatim>\<open>True\<close> and \<^verbatim>\<open>False\<close> as 1 and 0, \<open>num_truthy\<close> is the
  truth value of a number, \<open>py_str\<close> is \<^verbatim>\<open>str(v)\<close>, and \<open>fromisoformat\<close> is
  \<^verbatim>\<open>datetime.fromisoformat\<close> on a string, \<open>None\<close> standing for its
  \<^verbatim>\<open>ValueError\<close>.
\<close>

record 'n pylib =
  num_add :: "'n \<Rightarrow> 'n \<Rightarrow> error + 'n"
  num_half :: "'n \<Rightarrow> error + 'n"
  num_round1 :: "'n \<Rightarrow> 'n"
  num_of_bool :: "bool \<Rightarrow> 'n"
  num_truthy :: "'n \<Rightarrow> bool"
  py_str :: "'n json \<Rightarrow> string"
  fromisoformat :: "string \<Rightarrow> pydatetime option"

subsection \<open>Python's operations on parsed JSON\<close>

text \<open>\<^verbatim>\<open>v[k]\<close> with a string key.\<close>

fun getitem_key :: "'n json \<Rightarrow> string \<Rightarrow> error + 'n json" where
  "getitem_key (JObj kvs) k =
     (case map_of kvs k of None \<Rightarrow> Inl KeyError | Some v \<Rightarrow> Inr v)"
| "getitem_key _ k = Inl TypeError"

text \<open>
  \<^verbatim>\<open>v[i]\<close> with an index from \<^verbatim>\<open>range\<close> or \<^verbatim>\<open>list.index\<close> (never negative).
  A parsed dictionary has string keys only, so an integer is never one of them.
\<close>

fun getitem_idx :: "'n json \<Rightarrow> nat \<Rightarrow> error + 'n json" where
  "getitem_idx (JArr xs) i = (if i < length xs then Inr (xs ! i) else Inl IndexError)"
| "getitem_idx (JStr s) i = (if i < length s then Inr (JStr [s ! i]) else Inl IndexError)"
| "getitem_idx (JObj kvs) i = Inl KeyError"
| "getitem_idx _ i = Inl TypeError"

text \<open>\<^verbatim>\<open>len(v)\<close>.\<close>

fun py_len :: "'n json \<Rightarrow> error + nat" where
  "py_len (JArr xs) = Inr (length xs)"
| "py_len (JStr s) = Inr (length s)"
| "py_len (JObj kvs) = Inr (length kvs)"
| "py_len _ = Inl TypeError"

text \<open>\<^verbatim>\<open>for x in v\<close>: the elements, the characters, or the keys.\<close>

fun py_iter :: "'n json \<Rightarrow> error + 'n json list" where
  "py_iter (JArr xs) = Inr xs"
| "py_iter (JStr s) = Inr (map (\<lambda>c. JStr [c]) s)"
| "py_iter (JObj kvs) = Inr (map (\<lambda>kv. JStr (fst kv)) kvs)"
| "py_iter _ = Inl TypeError"

text \<open>The truth value of \<^verbatim>\<open>v\<close>, as \<^verbatim>\<open>not v\<close> and \<^verbatim>\<open>if v\<close> read it.\<close>

fun py_truthy :: "'n pylib \<Rightarrow> 'n json \<Rightarrow> bool" where
  "py_truthy L JNull = False"
| "py_truthy L (JBool b) = b"
| "py_truthy L (JNum x) = num_truthy L x"
| "py_truthy L (JStr s) = (s \<noteq> [])"
| "py_truthy L (JArr xs) = (xs \<noteq> [])"
| "py_truthy L (JObj kvs) = (kvs \<noteq> [])"

text \<open>The position of the first occurrence, of an element and of a substring.\<close>

fun index_of :: "'a \<Rightarrow> 'a list \<Rightarrow> nat option" where
  "index_of x [] = None"
| "index_of x (y # ys) = (if y = x then Some 0 else map_option Suc (index_of x ys))"

fun str_find :: "string \<Rightarrow> string \<Rightarrow> nat option" where
  "str_find needle [] = (if needle = [] then Some 0 else None)"
| "str_find needle (c # cs) =
     (if take (length needle) (c # cs) = needle then Some 0
      else map_option Suc (str_find needle cs))"

text \<open>
  \<^verbatim>\<open>k in v\<close> for a string \<^verbatim>\<open>k\<close>: a key of a dictionary, an element of a list,
  a substring of a string.
\<close>

fun py_contains :: "'n json \<Rightarrow> string \<Rightarrow> error + bool" where
  "py_contains (JObj kvs) k = Inr (k \<in> set (map fst kvs))"
| "py_contains (JArr xs) k = Inr (JStr k \<in> set xs)"
| "py_contains (JStr s) k = Inr (str_find k s \<noteq> None)"
| "py_contains _ k = Inl TypeError"

text \<open>
  \<^verbatim>\<open>v.index(s)\<close> for a string \<^verbatim>\<open>s\<close>: lists and strings have the method and
  raise \<^verbatim>\<open>ValueError\<close> when \<^verbatim>\<open>s\<close> does not occur; nothing else that JSON
  parses to has it.
\<close>

fun py_index :: "'n json \<Rightarrow> string \<Rightarrow> error + nat" where
  "py_index (JArr xs) s =
     (case index_of (JStr s) xs of None \<Rightarrow> Inl ValueError | Some i \<Rightarrow> Inr i)"
| "py_index (JStr t) s =
     (case str_find s t of None \<Rightarrow> Inl ValueError | Some i \<Rightarrow> Inr i)"
| "py_index _ s = Inl AttributeError"

text \<open>Numbers, with \<^verbatim>\<open>bool\<close> the subclass of \<^verbatim>\<open>int\<close> that it is in Python.\<close>

fun as_num :: "'n pylib \<Rightarrow> 'n json \<Rightarrow> 'n option" where
  "as_num L (JNum x) = Some x"
| "as_num L (JBool b) = Some (num_of_bool L b)"
| "as_num L _ = None"

text \<open>\<^verbatim>\<open>a + b\<close>: addition of numbers, concatenation of strings and of lists.\<close>

definition py_add :: "'n pylib \<Rightarrow> 'n json \<Rightarrow> 'n json \<Rightarrow> error + 'n json" where
  "py_add L a b =
     (case (as_num L a, as_num L b) of
        (Some x, Some y) \<Rightarrow> bind (num_add L x y) (\<lambda>z. Inr (JNum z))
      | _ \<Rightarrow>
        (case (a, b) of
           (JStr s, JStr t) \<Rightarrow> Inr (JStr (s @ t))
         | (JArr xs, JArr ys) \<Rightarrow> Inr (JArr (xs @ ys))
         | _ \<Rightarrow> Inl TypeError))"

text \<open>\<^verbatim>\<open>v / 2\<close>.\<close>

definition py_truediv2 :: "'n pylib \<Rightarrow> 'n json \<Rightarrow> error + 'n json" where
  "py_truediv2 L v =
     (case as_num L v of
        Some x \<Rightarrow> bind (num_half L x) (\<lambda>z. Inr (JNum z))
      | None \<Rightarrow> Inl TypeError)"

text \<open>\<^verbatim>\<open>round(v, 1)\<close>; on an \<^verbatim>\<open>int\<close> (so on a \<^verbatim>\<open>bool\<close>) it is the integer itself.\<close>

fun py_round1 :: "'n pylib \<Rightarrow> 'n json \<Rightarrow> error + 'n json" where
  "py_round1 L (JNum x) = Inr (JNum (num_round1 L x))"
| "py_round1 L (JBool b) = Inr (JNum (num_of_bool L b))"
| "py_round1 L _ = Inl TypeError"

text \<open>\<^verbatim>\<open>datetime.fromisoformat(v)\<close>: a \<^verbatim>\<open>TypeError\<close> unless \<^verbatim>\<open>v\<close> is a string.\<close>

fun py_fromisoformat :: "'n pylib \<Rightarrow> 'n json \<Rightarrow> error + pydatetime" where
  "py_fromisoformat L (JStr s) =
     (case fromisoformat L s of None \<Rightarrow> Inl ValueError | Some t \<Rightarrow> Inr t)"
| "py_fromisoformat L _ = Inl TypeError"

section \<open>The transformations\<close>

text \<open>
  The dictionaries the two transformations build, with the keys of the
  source (\<open>h_\<close> and \<open>d_\<close> tell the two \<^verbatim>\<open>city\<close> and \<^verbatim>\<open>date\<close> keys apart).
\<close>

record 'n hourly_record =
  h_city :: "'n json"
  h_date :: pydate
  hour :: pydatetime
  temperature :: "'n json"
  precipitation :: "'n json"
  wind_speed :: "'n json"
  wind_direction :: "'n json"

record 'n daily_summary =
  d_city :: "'n json"
  d_date :: pydate
  temp_min :: "'n json"
  temp_max :: "'n json"
  temp_avg :: "'n json"
  precipitation_total :: "'n json"
  wind_max :: int

text \<open>
  A list comprehension with a condition: \<open>f i\<close> is \<open>None\<close> where the condition
  is false and the element otherwise; the first exception ends the loop.
\<close>

fun collect :: "(nat \<Rightarrow> error + 'a option) \<Rightarrow> nat list \<Rightarrow> error + 'a list" where
  "collect f [] = Inr []"
| "collect f (i # is) =
     (case f i of
        Inl e \<Rightarrow> Inl e
      | Inr None \<Rightarrow> collect f is
      | Inr (Some x) \<Rightarrow> (case collect f is of Inl e \<Rightarrow> Inl e | Inr xs \<Rightarrow> Inr (x # xs)))"

text \<open>\<^verbatim>\<open>hourly_data[name][i]\<close>.\<close>

definition series_at :: "'n json \<Rightarrow> string \<Rightarrow> nat \<Rightarrow> error + 'n json" where
  "series_at series name i = bind (getitem_key series name) (\<lambda>xs. getitem_idx xs i)"

text \<open>
  One round of the comprehension of \<^verbatim>\<open>transform_hourly_data\<close>: the condition
  on index \<open>i\<close>, then the dictionary with its values in the order written.
\<close>

definition hourly_item ::
  "'n pylib \<Rightarrow> 'n json \<Rightarrow> 'n json \<Rightarrow> pydate \<Rightarrow> nat \<Rightarrow> error + 'n hourly_record option" where
  "hourly_item L city hourly_data tomorrow i =
     bind (series_at hourly_data ''time'' i) (\<lambda>t0.
     bind (py_fromisoformat L t0) (\<lambda>dt0.
       if dt_date dt0 \<noteq> tomorrow then Inr None
       else
         bind (series_at hourly_data ''time'' i) (\<lambda>t1.
         bind (py_fromisoformat L t1) (\<lambda>dt1.
         bind (series_at hourly_data ''time'' i) (\<lambda>t2.
         bind (py_fromisoformat L t2) (\<lambda>dt2.
         bind (series_at hourly_data ''temperature_2m'' i) (\<lambda>v_temp.
         bind (series_at hourly_data ''precipitation'' i) (\<lambda>v_prec.
         bind (series_at hourly_data ''wind_speed_10m'' i) (\<lambda>v_speed.
         bind (series_at hourly_data ''wind_direction_10m'' i) (\<lambda>v_dir.
           Inr (Some \<lparr>h_city = city, h_date = dt_date dt1, hour = dt2,
                      temperature = v_temp, precipitation = v_prec,
                      wind_speed = v_speed, wind_direction = v_dir\<rparr>)))))))))))"

text \<open>
  \<^verbatim>\<open>transform_hourly_data(data)\<close>, with the reading of the clock
  (\<^verbatim>\<open>datetime.now()\<close>) as the argument \<open>now\<close>.
\<close>

definition transform_hourly_data ::
  "'n pylib \<Rightarrow> pydatetime \<Rightarrow> 'n json \<Rightarrow> error + 'n hourly_record list" where
  "transform_hourly_data L now data =
     bind (getitem_key data ''city'') (\<lambda>city.
     bind (getitem_key data ''hourly'') (\<lambda>hourly_data.
     bind (add_one_day (dt_date now)) (\<lambda>tomorrow.
     bind (getitem_key hourly_data ''time'') (\<lambda>times.
     bind (py_len times) (\<lambda>n.
       collect (hourly_item L city hourly_data tomorrow) [0..<n])))))"

text \<open>
  \<^verbatim>\<open>transform_daily_data(data)\<close>.  Its handler for \<^verbatim>\<open>ValueError\<close> and
  \<^verbatim>\<open>IndexError\<close> prints and raises the same exception again, and every other
  exception passes through it, so the body's result is the function's.
\<close>

definition transform_daily_data ::
  "'n pylib \<Rightarrow> pydatetime \<Rightarrow> 'n json \<Rightarrow> error + 'n daily_summary" where
  "transform_daily_data L now data =
     bind (getitem_key data ''city'') (\<lambda>city.
     bind (getitem_key data ''daily'') (\<lambda>daily_data.
     bind (add_one_day (dt_date now)) (\<lambda>tomorrow_date.
       let tomorrow = strftime_ymd tomorrow_date in
         bind (getitem_key daily_data ''time'') (\<lambda>times.
         bind (py_index times tomorrow) (\<lambda>tomorrow_index.
         bind (series_at daily_data ''temperature_2m_min'' tomorrow_index) (\<lambda>v_min.
         bind (series_at daily_data ''temperature_2m_max'' tomorrow_index) (\<lambda>v_max.
         bind (py_add L v_min v_max) (\<lambda>v_sum.
         bind (py_truediv2 L v_sum) (\<lambda>v_half.
         bind (py_round1 L v_half) (\<lambda>v_avg.
         bind (strptime_ymd tomorrow) (\<lambda>date.
         bind (series_at daily_data ''precipitation_sum'' tomorrow_index) (\<lambda>v_prec.
           Inr \<lparr>d_city = city, d_date = date, temp_min = v_min, temp_max = v_max,
                temp_avg = v_avg, precipitation_total = v_prec,
                wind_max = 0\<rparr>))))))))))))"

section \<open>The outside world\<close>

text \<open>
  What an HTTP call of \<^verbatim>\<open>requests\<close> comes back with: no response at all, or a
  status code and the body parsed as JSON when it is JSON.
\<close>

datatype 'n http_outcome =
    Transport_failure
  | Response nat "'n json option"

text \<open>
  \<^verbatim>\<open>response = requests.get(...); response.raise_for_status(); response.json()\<close>:
  \<^verbatim>\<open>raise_for_status\<close> raises on the codes 400 to 599.
\<close>

definition http_json :: "'n http_outcome \<Rightarrow> error + 'n json" where
  "http_json r =
     (case r of
        Transport_failure \<Rightarrow> Inl RequestException
      | Response code body \<Rightarrow>
          if 400 \<le> code \<and> code < 600 then Inl (HTTPError code)
          else (case body of None \<Rightarrow> Inl JSONDecodeError | Some v \<Rightarrow> Inr v))"

text \<open>The lines the code prints, with the values they interpolate.\<close>

datatype 'n log_msg =
    Found_users nat
  | Error_getting_chat_ids error
  | Fetching_data string
  | API_error string error
  | MinIO_save_error error
  | Hourly_data_records "'n json" nat
  | No_data_for_tomorrow "'n json" error
  | No_hourly_data_to_load
  | Loaded_hourly_records nat
  | Bot_token_not_configured
  | No_users_found
  | Notifications_sent nat nat
  | Processing string
  | Error_processing string error
  | Starting_ETL_pipeline
  | Cities_line "string list"
  | Pipeline_completed nat nat
  | Data_stored


text \<open>
  Everything the pipeline does to the outside world, in the order it happens:
  the printed lines, the HTTP requests, the waiting between two runs of a
  task, the calls to the object store (a \<open>Put_object\<close> carries whether the
  store accepted it) and the \<^verbatim>\<open>INSERT\<close> statements.  A \<open>Send_message\<close> carries
  the token, the chat identifier and the summary that the text interpolates.
\<close>

datatype 'n event =
    Log "'n log_msg"
  | Weather_request rat rat
  | Retry_delay nat
  | Bucket_exists string
  | Make_bucket string
  | Put_object string string "'n json" bool
  | Insert_hourly "'n hourly_record"
  | Insert_daily "'n daily_summary"
  | Get_updates string
  | Send_message string string "'n daily_summary"

type_synonym 'n trace = "'n event list"

text \<open>
  The outside world answers each call from what has happened so far (the
  trace before the call): the clock, the weather API, the object store
  (\<open>None\<close> is success where only a failure carries information), the database,
  the process environment and the bot API.  \<open>lib\<close> is the library behaviour of
  the previous section.
\<close>

record 'n env =
  lib :: "'n pylib"
  clock :: "'n trace \<Rightarrow> pydatetime"
  weather_api :: "'n trace \<Rightarrow> rat \<Rightarrow> rat \<Rightarrow> 'n http_outcome"
  bucket_exists :: "'n trace \<Rightarrow> string \<Rightarrow> error + bool"
  make_bucket :: "'n trace \<Rightarrow> string \<Rightarrow> error option"
  put_object :: "'n trace \<Rightarrow> string \<Rightarrow> string \<Rightarrow> 'n json \<Rightarrow> error option"
  execute_hourly :: "'n trace \<Rightarrow> 'n hourly_record \<Rightarrow> error option"
  execute_daily :: "'n trace \<Rightarrow> 'n daily_summary \<Rightarrow> error option"
  getenv_bot_token :: "'n trace \<Rightarrow> string option"
  telegram_get_updates :: "'n trace \<Rightarrow> string \<Rightarrow> 'n http_outcome"
  telegram_send_message :: "'n trace \<Rightarrow> string \<Rightarrow> string \<Rightarrow> 'n http_outcome"

text \<open>A step of the pipeline: from the trace so far to a result or an exception, and the trace after it.\<close>

type_synonym ('n, 'a) step = "'n trace \<Rightarrow> (error + 'a) \<times> 'n trace"



section \<open>The steps of the pipeline\<close>

subsection \<open>Subscribers\<close>

text \<open>
  The set comprehension of \<^verbatim>\<open>get_chat_ids\<close>, before duplicates are merged.
\<close>

fun chat_ids_loop :: "'n pylib \<Rightarrow> 'n json list \<Rightarrow> error + string list" where
  "chat_ids_loop L [] = Inr []"
| "chat_ids_loop L (update # rest) =
     bind (py_contains update ''message'') (\<lambda>has_message.
       if has_message then
         bind (getitem_key update ''message'') (\<lambda>message.
         bind (getitem_key message ''chat'') (\<lambda>chat.
         bind (getitem_key chat ''id'') (\<lambda>ident.
         bind (chat_ids_loop L rest) (\<lambda>ids. Inr (py_str L ident # ids)))))
       else chat_ids_loop L rest)"

text \<open>
  What \<^verbatim>\<open>get_chat_ids\<close> computes from the parsed response: \<open>None\<close> on the early
  return for a false \<^verbatim>\<open>ok\<close>, the identifiers otherwise.  Python does not fix
  the order in which \<^verbatim>\<open>list(chat_ids)\<close> enumerates the set; the model keeps
  the order of the updates.
\<close>

definition chat_ids_of :: "'n pylib \<Rightarrow> 'n json \<Rightarrow> error + string list option" where
  "chat_ids_of L data =
     bind (getitem_key data ''ok'') (\<lambda>ok.
       if \<not> py_truthy L ok then Inr None
       else
         bind (getitem_key data ''result'') (\<lambda>result.
         bind (py_iter result) (\<lambda>updates.
         bind (chat_ids_loop L updates) (\<lambda>ids. Inr (Some (remdups ids))))))"

text \<open>\<^verbatim>\<open>get_chat_ids(bot_token)\<close>: every exception ends in the handler, which returns the empty list.\<close>

definition get_chat_ids :: "'n env \<Rightarrow> string \<Rightarrow> 'n trace \<Rightarrow> string list \<times> 'n trace" where
  "get_chat_ids E bot_token w =
     (let w1 = w @ [Get_updates bot_token] in
      case bind (http_json (telegram_get_updates E w bot_token)) (chat_ids_of (lib E)) of
        Inl e \<Rightarrow> ([], w1 @ [Log (Error_getting_chat_ids e)])
      | Inr None \<Rightarrow> ([], w1)
      | Inr (Some ids) \<Rightarrow> (ids, w1 @ [Log (Found_users (length ids))]))"

subsection \<open>Fetch\<close>





subsection \<open>Archive\<close>






subsection \<open>Transform\<close>



subsection \<open>Load\<close>




subsection \<open>Notify\<close>

text \<open>
  The loop of \<^verbatim>\<open>send_telegram_notifications\<close>: a response with status 200
  counts as successful, any other response and any exception as failed.
\<close>

fun send_loop ::
  "'n env \<Rightarrow> string \<Rightarrow> 'n daily_summary \<Rightarrow> string list \<Rightarrow> nat \<Rightarrow> nat \<Rightarrow> 'n trace
     \<Rightarrow> nat \<times> nat \<times> 'n trace" where
  "send_loop E bot_token daily_data [] successful failed w = (successful, failed, w)"
| "send_loop E bot_token daily_data (chat_id # rest) successful failed w =
     (case telegram_send_message E w bot_token chat_id of
        Response code body \<Rightarrow>
          if code = 200
          then send_loop E bot_token daily_data rest (successful + 1) failed
                 (w @ [Send_message bot_token chat_id daily_data])
          else send_loop E bot_token daily_data rest successful (failed + 1)
                 (w @ [Send_message bot_token chat_id daily_data])
      | Transport_failure \<Rightarrow>
          send_loop E bot_token daily_data rest successful (failed + 1)
            (w @ [Send_message bot_token chat_id daily_data]))"

text \<open>
  \<^verbatim>\<open>if not bot_token\<close> holds for an unset variable and for an empty one.
\<close>

definition send_telegram_notifications :: "'n env \<Rightarrow> 'n daily_summary \<Rightarrow> ('n, unit) step" where
  "send_telegram_notifications E daily_data w =
     (case getenv_bot_token E w of
        None \<Rightarrow> (Inr (), w @ [Log Bot_token_not_configured])
      | Some bot_token \<Rightarrow>
          if bot_token = [] then (Inr (), w @ [Log Bot_token_not_configured])
          else
            (case get_chat_ids E bot_token w of
               (chat_ids, w1) \<Rightarrow>
                 if chat_ids = [] then (Inr (), w1 @ [Log No_users_found])
                 else
                   (case send_loop E bot_token daily_data chat_ids 0 0 w1 of
                      (successful, failed, w2) \<Rightarrow>
                        (Inr (), w2 @ [Log (Notifications_sent successful failed)]))))"

subsection \<open>Orchestration\<close>







section \<open>An interpretation of the library, and sample inputs\<close>

text \<open>
  To run the definitions on examples, numbers are read as rationals with exact
  arithmetic: \<open>round1_exact\<close> rounds to one decimal place, a tie going to the
  even digit as Python's \<^verbatim>\<open>round\<close> does; \<open>str_exact\<close> prints strings and
  non-negative whole numbers (what chat identifiers of private chats are) and
  is empty elsewhere; \<open>fromisoformat_hm\<close> reads the timestamps of the weather
  API, \<^verbatim>\<open>YYYY-MM-DDTHH:MM\<close>, and plain dates.  The theorems below hold for
  every interpretation; this one serves their examples.
\<close>

definition round1_exact :: "rat \<Rightarrow> rat" where
  "round1_exact x =
     (let y = x * 10; f = \<lfloor>y\<rfloor>; r = y - of_int f in
      of_int (if r < 1 / 2 then f else if 1 / 2 < r then f + 1
              else if even f then f else f + 1) / 10)"

fun str_nat :: "nat \<Rightarrow> string" where
  "str_nat n = (if n < 10 then [digit_char n] else str_nat (n div 10) @ [digit_char n])"

definition str_exact :: "rat json \<Rightarrow> string" where
  "str_exact v =
     (case v of
        JStr s \<Rightarrow> s
      | JNum x \<Rightarrow> if 0 \<le> x \<and> of_int \<lfloor>x\<rfloor> = x then str_nat (nat \<lfloor>x\<rfloor>) else []
      | _ \<Rightarrow> [])"

definition parse_2digits :: "string \<Rightarrow> nat option" where
  "parse_2digits f =
     (case f of
        [a, b] \<Rightarrow> if is_digit a \<and> is_digit b then Some (10 * digit_val a + digit_val b) else None
      | _ \<Rightarrow> None)"

definition fromisoformat_hm :: "string \<Rightarrow> pydatetime option" where
  "fromisoformat_hm s =
     (case strptime_ymd (take 10 s) of
        Inl e \<Rightarrow> None
      | Inr d \<Rightarrow>
          if length s = 10 then
            Some \<lparr>dt_date = d, hour_of = 0, minute_of = 0, second_of = 0, microsecond_of = 0\<rparr>
          else if length s = 16 \<and> s ! 13 = CHR '':'' then
            (case (parse_2digits (take 2 (drop 11 s)), parse_2digits (drop 14 s)) of
               (Some h, Some m) \<Rightarrow>
                 if h < 24 \<and> m < 60 then
                   Some \<lparr>dt_date = d, hour_of = h, minute_of = m, second_of = 0,
                         microsecond_of = 0\<rparr>
                 else None
             | _ \<Rightarrow> None)
          else None)"

definition exact_lib :: "rat pylib" where
  "exact_lib =
     \<lparr>num_add = (\<lambda>x y. Inr (x + y)),
      num_half = (\<lambda>x. Inr (x / 2)),
      num_round1 = round1_exact,
      num_of_bool = (\<lambda>b. if b then 1 else 0),
      num_truthy = (\<lambda>x. x \<noteq> 0),
      py_str = str_exact,
      fromisoformat = fromisoformat_hm\<rparr>"

text \<open>A run at noon of 10 October 2025: tomorrow is 11 October.\<close>

definition sample_now :: pydatetime where
  "sample_now =
     \<lparr>dt_date = \<lparr>year = 2025, month = 10, day = 10\<rparr>,
      hour_of = 12, minute_of = 0, second_of = 0, microsecond_of = 0\<rparr>"

definition sample_hourly :: "rat json" where
  "sample_hourly =
     JObj [(''time'', JArr [JStr ''2025-10-10T23:00'', JStr ''2025-10-11T00:00'',
                            JStr ''2025-10-11T01:00'']),
           (''temperature_2m'', JArr [JNum 5, JNum 4, JNum (7 / 2)]),
           (''precipitation'', JArr [JNum 0, JNum 0, JNum (1 / 5)]),
           (''wind_speed_10m'', JArr [JNum 12, JNum 11, JNum 9]),
           (''wind_direction_10m'', JArr [JNum 180, JNum 190, JNum 200])]"

definition sample_daily :: "rat json" where
  "sample_daily =
     JObj [(''time'', JArr [JStr ''2025-10-10'', JStr ''2025-10-11'']),
           (''temperature_2m_max'', JArr [JNum 10, JNum (113 / 10)]),
           (''temperature_2m_min'', JArr [JNum 2, JNum (16 / 5)]),
           (''precipitation_sum'', JArr [JNum 0, JNum (3 / 2)])]"

definition sample_payload :: "rat json" where
  "sample_payload =
     JObj [(''hourly'', sample_hourly), (''daily'', sample_daily),
           (''city'', JStr ''Samara''), (''fetched_at'', JStr ''2025-10-10T12:00:00'')]"

definition sample_summary :: "rat daily_summary" where
  "sample_summary =
     \<lparr>d_city = JStr ''Samara'', d_date = \<lparr>year = 2025, month = 10, day = 11\<rparr>,
      temp_min = JNum (16 / 5), temp_max = JNum (113 / 10), temp_avg = JNum (36 / 5),
      precipitation_total = JNum (3 / 2), wind_max = 0\<rparr>"

definition sample_times :: "pydatetime list" where
  "sample_times =
     [\<lparr>dt_date = \<lparr>year = 2025, month = 10, day = 10\<rparr>,
       hour_of = 23, minute_of = 0, second_of = 0, microsecond_of = 0\<rparr>,
      \<lparr>dt_date = \<lparr>year = 2025, month = 10, day = 11\<rparr>,
       hour_of = 0, minute_of = 0, second_of = 0, microsecond_of = 0\<rparr>,
      \<lparr>dt_date = \<lparr>year = 2025, month = 10, day = 11\<rparr>,
       hour_of = 1, minute_of = 0, second_of = 0, microsecond_of = 0\<rparr>]"

definition sample_hourly_records :: "rat hourly_record list" where
  "sample_hourly_records =
     [\<lparr>h_city = JStr ''Samara'', h_date = \<lparr>year = 2025, month = 10, day = 11\<rparr>,
       hour = sample_times ! 1, temperature = JNum 4, precipitation = JNum 0,
       wind_speed = JNum 11, wind_direction = JNum 190\<rparr>,
      \<lparr>h_city = JStr ''Samara'', h_date = \<lparr>year = 2025, month = 10, day = 11\<rparr>,
       hour = sample_times ! 2, temperature = JNum (7 / 2), precipitation = JNum (1 / 5),
       wind_speed = JNum 9, wind_direction = JNum 200\<rparr>]"

text \<open>
  Two more payloads for the same run: one whose daily series for the
  temperatures stop before tomorrow's entry, and one whose daily series know
  nothing of tomorrow.
\<close>

definition short_daily :: "rat json" where
  "short_daily =
     JObj [(''time'', JArr [JStr ''2025-10-10'', JStr ''2025-10-11'']),
           (''temperature_2m_max'', JArr [JNum 10]),
           (''temperature_2m_min'', JArr [JNum 2]),
           (''precipitation_sum'', JArr [JNum 0])]"

definition short_payload :: "rat json" where
  "short_payload =
     JObj [(''hourly'', sample_hourly), (''daily'', short_daily),
           (''city'', JStr ''Samara''), (''fetched_at'', JStr ''2025-10-10T12:00:00'')]"

definition stale_daily :: "rat json" where
  "stale_daily =
     JObj [(''time'', JArr [JStr ''2025-10-09'', JStr ''2025-10-10'']),
           (''temperature_2m_max'', JArr [JNum 9, JNum 10]),
           (''temperature_2m_min'', JArr [JNum 1, JNum 2]),
           (''precipitation_sum'', JArr [JNum 0, JNum 0])]"

definition stale_payload :: "rat json" where
  "stale_payload =
     JObj [(''hourly'', sample_hourly), (''daily'', stale_daily),
           (''city'', JStr ''Samara''), (''fetched_at'', JStr ''2025-10-10T12:00:00'')]"

text \<open>
  The expression \<^verbatim>\<open>round((a + b) / 2, 1)\<close> of the specification, on two
  values.
\<close>

definition midpoint_rounded :: "'n pylib \<Rightarrow> 'n json \<Rightarrow> 'n json \<Rightarrow> error + 'n json" where
  "midpoint_rounded L a b =
     bind (py_add L a b) (\<lambda>s. bind (py_truediv2 L s) (\<lambda>h. py_round1 L h))"

section \<open>Notions the properties are stated with\<close>

text \<open>The calls that leave the process: everything but printing and waiting.\<close>

fun is_network_call :: "'n event \<Rightarrow> bool" where
  "is_network_call (Log m) = False"
| "is_network_call (Retry_delay d) = False"
| "is_network_call _ = True"

definition network_calls :: "'n trace \<Rightarrow> 'n trace" where
  "network_calls w = filter is_network_call w"



text \<open>
  The chat identifier of an update, \<^verbatim>\<open>update['message']['chat']['id']\<close>; the
  updates that contain a message; and the identifiers of those updates, in
  the order of the updates.
\<close>

definition update_chat_id :: "'n json \<Rightarrow> error + 'n json" where
  "update_chat_id update =
     bind (getitem_key update ''message'') (\<lambda>message.
     bind (getitem_key message ''chat'') (\<lambda>chat. getitem_key chat ''id''))"

definition has_message :: "'n json \<Rightarrow> bool" where
  "has_message update = (py_contains update ''message'' = Inr True)"

fun message_chat_ids :: "'n json list \<Rightarrow> 'n json list" where
  "message_chat_ids [] = []"
| "message_chat_ids (update # rest) =
     (if has_message update then
        (case update_chat_id update of
           Inr ident \<Rightarrow> ident # message_chat_ids rest
         | Inl e \<Rightarrow> message_chat_ids rest)
      else message_chat_ids rest)"

text \<open>
  An update as the bot API sends it: a dictionary, with a chat identifier
  under its message when it has one.
\<close>

definition well_formed_update :: "'n json \<Rightarrow> bool" where
  "well_formed_update update =
     (case update of
        JObj kvs \<Rightarrow>
          (has_message update \<longrightarrow>
             (case update_chat_id update of Inr ident \<Rightarrow> True | Inl e \<Rightarrow> False))
      | _ \<Rightarrow> False)"

text \<open>
  The cities whose processing began, read off the line \<^verbatim>\<open>Processing: {city}\<close>
  that \<^verbatim>\<open>process_city\<close> prints first.
\<close>

fun started :: "'n trace \<Rightarrow> string list" where
  "started [] = []"
| "started (Log (Processing city) # w) = city # started w"
| "started (ev # w) = started w"



text \<open>A step that begins the processing of no city: it only adds to the trace, and no \<^verbatim>\<open>Processing\<close> line.\<close>

definition silent :: "('n trace \<Rightarrow> 'a \<times> 'n trace) \<Rightarrow> bool" where
  "silent m = (\<forall>w. \<exists>v. snd (m w) = w @ v \<and> started v = [])"

section \<open>Sample worlds\<close>

text \<open>
  The response of the weather API behind \<open>sample_payload\<close>, a response of the
  bot API with three updates (two messages of chat 42, one update without a
  message) and one with none, and worlds for the examples: one in which every
  service answers well, one whose bot has no updates, one whose weather API
  answers 500 to the first three requests, and one whose weather API always
  answers 500.
\<close>

definition sample_response :: "rat json" where
  "sample_response = JObj [(''hourly'', sample_hourly), (''daily'', sample_daily)]"

definition sample_updates :: "rat json" where
  "sample_updates =
     JObj [(''ok'', JBool True),
           (''result'', JArr
              [JObj [(''update_id'', JNum 1),
                     (''message'', JObj [(''chat'', JObj [(''id'', JNum 42)])])],
               JObj [(''update_id'', JNum 2), (''edited_message'', JObj [])],
               JObj [(''update_id'', JNum 3),
                     (''message'', JObj [(''chat'', JObj [(''id'', JNum 42)])])]])]"

definition no_updates :: "rat json" where
  "no_updates = JObj [(''ok'', JBool True), (''result'', JArr [])]"

definition calm_env :: "rat env" where
  "calm_env =
     \<lparr>lib = exact_lib,
      clock = (\<lambda>w. sample_now),
      weather_api = (\<lambda>w lat lon. Response 200 (Some sample_response)),
      bucket_exists = (\<lambda>w bucket. Inr True),
      make_bucket = (\<lambda>w bucket. None),
      put_object = (\<lambda>w bucket key content. None),
      execute_hourly = (\<lambda>w row. None),
      execute_daily = (\<lambda>w row. None),
      getenv_bot_token = (\<lambda>w. Some ''TOKEN''),
      telegram_get_updates = (\<lambda>w token. Response 200 (Some sample_updates)),
      telegram_send_message = (\<lambda>w token chat_id. Response 200 None)\<rparr>"

definition quiet_env :: "rat env" where
  "quiet_env = calm_env\<lparr>telegram_get_updates := (\<lambda>w token. Response 200 (Some no_updates))\<rparr>"




text \<open>
  Worlds whose bot API cannot be reached, answers with something that is not
  a dictionary, and answers with a false \<^verbatim>\<open>ok\<close>.
\<close>

definition offline_bot_env :: "rat env" where
  "offline_bot_env = calm_env\<lparr>telegram_get_updates := (\<lambda>w token. Transport_failure)\<rparr>"

definition malformed_bot_env :: "rat env" where
  "malformed_bot_env =
     calm_env\<lparr>telegram_get_updates := (\<lambda>w token. Response 200 (Some (JArr [])))\<rparr>"

definition denied_bot_env :: "rat env" where
  "denied_bot_env =
     calm_env\<lparr>telegram_get_updates :=
       (\<lambda>w token. Response 200 (Some (JObj [(''ok'', JBool False)])))\<rparr>"



section \<open>Dates as text\<close>

lemma bind_Inr_iff: "bind m f = Inr y \<longleftrightarrow> (\<exists>x. m = Inr x \<and> f x = Inr y)"
  by (cases m) (simp_all add: bind_def)

lemma bind_Inr: "bind (Inr x) f = f x"
  by (simp add: bind_def)

lemma bind_Inl: "bind (Inl e) f = Inl e"
  by (simp add: bind_def)

lemma of_char_digit_char: "(of_char (digit_char n) :: nat) = 48 + n mod 10"
proof -
  have "(48 + n mod 10) mod 256 = 48 + n mod 10"
    by (rule mod_less) arith
  then show ?thesis
    by (simp add: digit_char_def of_char_of)
qed

lemma is_digit_digit_char: "is_digit (digit_char n)"
  by (simp add: is_digit_def of_char_digit_char)

lemma digit_val_digit_char: "digit_val (digit_char n) = n mod 10"
  by (simp add: digit_val_def of_char_digit_char)

lemma digit_char_neq:
  assumes "(of_char c :: nat) < 48 \<or> 57 < (of_char c :: nat)"
  shows "digit_char n \<noteq> c"
proof
  assume "digit_char n = c"
  then have "(of_char c :: nat) = 48 + n mod 10"
    using of_char_digit_char [of n] by simp
  with assms show False by arith
qed

lemma digit_char_not_dash: "digit_char n \<noteq> CHR ''-''"
  by (rule digit_char_neq) simp


lemma decimal_digits4:
  assumes "y < 10000"
  shows "1000 * (y div 1000 mod 10) + 100 * (y div 100 mod 10) + 10 * (y div 10 mod 10) + y mod 10 = (y::nat)"
proof -
  define q1 where "q1 = y div 10"
  define q2 where "q2 = y div 100"
  define q3 where "q3 = y div 1000"
  define r0 where "r0 = y mod 10"
  define r1 where "r1 = q1 mod 10"
  define r2 where "r2 = q2 mod 10"
  have e0: "y = 10 * q1 + r0"
    by (simp add: q1_def r0_def)
  have "q2 = q1 div 10"
    by (simp add: q1_def q2_def div_mult2_eq [symmetric])
  then have e1: "q1 = 10 * q2 + r1"
    by (simp add: r1_def)
  have "q3 = q2 div 10"
    by (simp add: q2_def q3_def div_mult2_eq [symmetric])
  then have e2: "q2 = 10 * q3 + r2"
    by (simp add: r2_def)
  have "q3 < 10"
    using assms by (simp add: q3_def less_mult_imp_div_less)
  then have e3: "q3 mod 10 = q3"
    by simp
  have "1000 * q3 + 100 * r2 + 10 * r1 + r0 = y"
    using e0 e1 e2 by linarith
  then show ?thesis
    by (simp add: e3 q1_def [symmetric] q2_def [symmetric] q3_def [symmetric]
        r0_def [symmetric] r1_def [symmetric] r2_def [symmetric])
qed

lemma parse_year_pad4: "y < 10000 \<Longrightarrow> parse_year (pad4 y) = Some y"
  using decimal_digits4 [of y]
  by (simp add: parse_year_def pad4_def is_digit_digit_char digit_val_digit_char)

lemma parse_month_pad2: "\<forall>m \<in> set [1..<13]. parse_month (pad2 m) = Some m"
  by code_simp

lemma parse_day_pad2: "\<forall>d \<in> set [1..<32]. parse_day (pad2 d) = Some d"
  by code_simp

lemma split_on_strftime_ymd:
  "split_on CHR ''-'' (strftime_ymd d) = [pad4 (year d), pad2 (month d), pad2 (day d)]"
  by (simp add: strftime_ymd_def pad4_def pad2_def digit_char_not_dash)

lemma strptime_strftime:
  assumes "valid_date d" and "1000 \<le> year d"
  shows "strptime_ymd (strftime_ymd d) = Inr d"
proof -
  have y: "parse_year (pad4 (year d)) = Some (year d)"
    using assms by (simp add: parse_year_pad4 valid_date_def)
  have "month d \<in> set [1..<13]"
    using assms by (simp add: valid_date_def)
  then have m: "parse_month (pad2 (month d)) = Some (month d)"
    using parse_month_pad2 by blast
  have "days_in_month (year d) (month d) \<le> 31"
    by (simp add: days_in_month_def)
  then have "day d \<in> set [1..<32]"
    using assms by (simp add: valid_date_def)
  then have dd: "parse_day (pad2 (day d)) = Some (day d)"
    using parse_day_pad2 by blast
  have r: "\<lparr>year = year d, month = month d, day = day d\<rparr> = d"
    by (cases d) simp
  show ?thesis
    using assms(1) by (simp add: strptime_ymd_def split_on_strftime_ymd y m dd r)
qed

lemma add_one_day_valid:
  assumes "valid_date d" and "add_one_day d = Inr t"
  shows "valid_date t \<and> year d \<le> year t"
  using assms
  by (auto simp: add_one_day_def valid_date_def days_in_month_def split: if_splits)

section \<open>The daily transformation\<close>

lemma transform_daily_data_Inr:
  assumes "transform_daily_data L now data = Inr s"
  obtains city daily_data tm tseries i v_min v_max v_sum v_half v_avg date v_prec where
    "getitem_key data ''city'' = Inr city"
    "getitem_key data ''daily'' = Inr daily_data"
    "add_one_day (dt_date now) = Inr tm"
    "getitem_key daily_data ''time'' = Inr tseries"
    "py_index tseries (strftime_ymd tm) = Inr i"
    "series_at daily_data ''temperature_2m_min'' i = Inr v_min"
    "series_at daily_data ''temperature_2m_max'' i = Inr v_max"
    "py_add L v_min v_max = Inr v_sum"
    "py_truediv2 L v_sum = Inr v_half"
    "py_round1 L v_half = Inr v_avg"
    "strptime_ymd (strftime_ymd tm) = Inr date"
    "series_at daily_data ''precipitation_sum'' i = Inr v_prec"
    "s = \<lparr>d_city = city, d_date = date, temp_min = v_min, temp_max = v_max,
          temp_avg = v_avg, precipitation_total = v_prec, wind_max = 0\<rparr>"
  using assms unfolding transform_daily_data_def Let_def bind_Inr_iff
  by (elim exE conjE) (rule that, assumption+, simp)

lemma transform_daily_data_found:
  assumes "getitem_key data ''city'' = Inr city"
    and "getitem_key data ''daily'' = Inr daily_data"
    and "add_one_day (dt_date now) = Inr tm"
    and "getitem_key daily_data ''time'' = Inr tseries"
    and "py_index tseries (strftime_ymd tm) = Inr i"
    and "series_at daily_data ''temperature_2m_min'' i = Inr v_min"
    and "series_at daily_data ''temperature_2m_max'' i = Inr v_max"
    and "py_add L v_min v_max = Inr v_sum"
    and "py_truediv2 L v_sum = Inr v_half"
    and "py_round1 L v_half = Inr v_avg"
    and "series_at daily_data ''precipitation_sum'' i = Inr v_prec"
    and "valid_date (dt_date now)" and "1000 \<le> year (dt_date now)"
  shows "transform_daily_data L now data =
           Inr \<lparr>d_city = city, d_date = tm, temp_min = v_min, temp_max = v_max,
                temp_avg = v_avg, precipitation_total = v_prec, wind_max = 0\<rparr>"
proof -
  have "valid_date tm \<and> year (dt_date now) \<le> year tm"
    using assms(12) assms(3) by (rule add_one_day_valid)
  then have "strptime_ymd (strftime_ymd tm) = Inr tm"
    using assms(13) by (simp add: strptime_strftime)
  then show ?thesis
    using assms(1-11) by (simp add: transform_daily_data_def bind_Inr)
qed

lemma sample_tomorrow:
  "add_one_day (dt_date sample_now) = Inr \<lparr>year = 2025, month = 10, day = 11\<rparr>"
  by (simp add: add_one_day_def sample_now_def days_in_month_def)

lemma sample_tomorrow_text:
  "strftime_ymd \<lparr>year = 2025, month = 10, day = 11\<rparr> = ''2025-10-11''"
  by code_simp

lemma sample_daily_result:
  "transform_daily_data exact_lib sample_now sample_payload = Inr sample_summary"
  unfolding sample_summary_def
proof (rule transform_daily_data_found [where i = 1 and daily_data = sample_daily])
  show "getitem_key sample_payload ''city'' = Inr (JStr ''Samara'')"
    by (simp add: sample_payload_def)
  show "getitem_key sample_payload ''daily'' = Inr sample_daily"
    by (simp add: sample_payload_def)
  show "add_one_day (dt_date sample_now) = Inr \<lparr>year = 2025, month = 10, day = 11\<rparr>"
    by (rule sample_tomorrow)
  show "getitem_key sample_daily ''time'' = Inr (JArr [JStr ''2025-10-10'', JStr ''2025-10-11''])"
    by (simp add: sample_daily_def)
  show "py_index (JArr [JStr ''2025-10-10'', JStr ''2025-10-11''])
          (strftime_ymd \<lparr>year = 2025, month = 10, day = 11\<rparr>) = Inr 1"
    by (simp add: sample_tomorrow_text)
  show "series_at sample_daily ''temperature_2m_min'' 1 = Inr (JNum (16 / 5))"
    by (simp add: sample_daily_def series_at_def bind_def)
  show "series_at sample_daily ''temperature_2m_max'' 1 = Inr (JNum (113 / 10))"
    by (simp add: sample_daily_def series_at_def bind_def)
  show "py_add exact_lib (JNum (16 / 5)) (JNum (113 / 10)) = Inr (JNum (29 / 2))"
    by (simp add: py_add_def exact_lib_def bind_def)
  show "py_truediv2 exact_lib (JNum (29 / 2)) = Inr (JNum (29 / 4))"
    by (simp add: py_truediv2_def exact_lib_def bind_def)
  show "py_round1 exact_lib (JNum (29 / 4)) = Inr (JNum (36 / 5))"
    by code_simp
  show "series_at sample_daily ''precipitation_sum'' 1 = Inr (JNum (3 / 2))"
    by (simp add: sample_daily_def series_at_def bind_def)
  show "valid_date (dt_date sample_now)"
    by (simp add: sample_now_def valid_date_def days_in_month_def)
  show "1000 \<le> year (dt_date sample_now)"
    by (simp add: sample_now_def)
qed

text \<open>
  Claim C6.  Whenever the daily transformation returns a summary, the
  \<^verbatim>\<open>wind_max\<close> field of the summary is 0, whatever wind data the payload
  holds.
\<close>

theorem daily_wind_max_zero:
  "transform_daily_data L now data = Inr s \<Longrightarrow> wind_max s = 0"
  by (erule transform_daily_data_Inr) simp

theorem daily_wind_max_zero_witness:
  "transform_daily_data exact_lib sample_now sample_payload = Inr sample_summary \<and>
   wind_max sample_summary = 0"
  using daily_wind_max_zero [OF sample_daily_result] sample_daily_result by simp

text \<open>
  Claim C4.  Whenever the daily transformation returns a summary, its
  \<^verbatim>\<open>temp_min\<close> and \<^verbatim>\<open>temp_max\<close> are the entries of the payload's daily
  minimum and maximum series at the index of tomorrow's date string in the
  daily \<^verbatim>\<open>time\<close> series, and its \<^verbatim>\<open>temp_avg\<close> is
  \<^verbatim>\<open>round((temp_min + temp_max) / 2, 1)\<close> of these two values.
\<close>

theorem daily_temp_avg:
  assumes "transform_daily_data L now data = Inr s"
  shows "\<exists>daily_data tm tseries i.
           getitem_key data ''daily'' = Inr daily_data \<and>
           add_one_day (dt_date now) = Inr tm \<and>
           getitem_key daily_data ''time'' = Inr tseries \<and>
           py_index tseries (strftime_ymd tm) = Inr i \<and>
           series_at daily_data ''temperature_2m_min'' i = Inr (temp_min s) \<and>
           series_at daily_data ''temperature_2m_max'' i = Inr (temp_max s) \<and>
           midpoint_rounded L (temp_min s) (temp_max s) = Inr (temp_avg s)"
  using assms
proof (rule transform_daily_data_Inr)
  fix city daily_data tm tseries i v_min v_max v_sum v_half v_avg date v_prec
  assume "getitem_key data ''daily'' = Inr daily_data"
    and "add_one_day (dt_date now) = Inr tm"
    and "getitem_key daily_data ''time'' = Inr tseries"
    and "py_index tseries (strftime_ymd tm) = Inr i"
    and "series_at daily_data ''temperature_2m_min'' i = Inr v_min"
    and "series_at daily_data ''temperature_2m_max'' i = Inr v_max"
    and "py_add L v_min v_max = Inr v_sum"
    and "py_truediv2 L v_sum = Inr v_half"
    and "py_round1 L v_half = Inr v_avg"
    and "s = \<lparr>d_city = city, d_date = date, temp_min = v_min, temp_max = v_max,
               temp_avg = v_avg, precipitation_total = v_prec, wind_max = 0\<rparr>"
  then show ?thesis
    by (simp add: midpoint_rounded_def bind_Inr)
qed

theorem daily_temp_avg_witness:
  "transform_daily_data exact_lib sample_now sample_payload = Inr sample_summary \<and>
   midpoint_rounded exact_lib (JNum (16 / 5)) (JNum (113 / 10)) = Inr (JNum (36 / 5))"
  using daily_temp_avg [OF sample_daily_result] sample_daily_result
  by (auto simp: sample_summary_def)

lemma index_of_None: "index_of x xs = None \<longleftrightarrow> x \<notin> set xs"
  by (induction xs) auto

lemma index_of_Some: "index_of x xs = Some i \<Longrightarrow> i < length xs \<and> xs ! i = x"
  by (induction xs arbitrary: i) (auto split: if_splits)

lemma index_of_first: "index_of x xs = Some i \<Longrightarrow> j < i \<Longrightarrow> xs ! j \<noteq> x"
proof (induction xs arbitrary: i j)
  case Nil
  then show ?case by simp
next
  case (Cons y ys)
  show ?case
  proof (cases "y = x")
    case True
    with Cons.prems show ?thesis by simp
  next
    case False
    with Cons.prems obtain i' where i': "index_of x ys = Some i'" "i = Suc i'"
      by auto
    show ?thesis
    proof (cases j)
      case 0
      with False show ?thesis by simp
    next
      case (Suc j')
      with Cons.prems(2) i' have "j' < i'" by simp
      with Cons.IH [OF i'(1)] Suc show ?thesis by simp
    qed
  qed
qed

lemma transform_daily_data_absent:
  assumes "getitem_key data ''city'' = Inr city"
    and "getitem_key data ''daily'' = Inr daily_data"
    and "getitem_key daily_data ''time'' = Inr (JArr ts)"
    and "add_one_day (dt_date now) = Inr tm"
    and "JStr (strftime_ymd tm) \<notin> set ts"
  shows "transform_daily_data L now data = Inl ValueError"
proof -
  have "index_of (JStr (strftime_ymd tm)) ts = None"
    using assms(5) by (simp add: index_of_None)
  then show ?thesis
    using assms(1-4) by (simp add: transform_daily_data_def bind_def)
qed

lemma series_at_short:
  assumes "getitem_key series name = Inr (JArr xs)" and "length xs \<le> i"
  shows "series_at series name i = Inl IndexError"
  using assms by (simp add: series_at_def bind_def)

lemma transform_daily_data_at:
  assumes "getitem_key data ''city'' = Inr city"
    and "getitem_key data ''daily'' = Inr daily_data"
    and "getitem_key daily_data ''time'' = Inr (JArr ts)"
    and "add_one_day (dt_date now) = Inr tm"
    and "valid_date (dt_date now)" and "1000 \<le> year (dt_date now)"
    and "index_of (JStr (strftime_ymd tm)) ts = Some i"
  shows "transform_daily_data L now data =
           bind (series_at daily_data ''temperature_2m_min'' i) (\<lambda>v_min.
           bind (series_at daily_data ''temperature_2m_max'' i) (\<lambda>v_max.
           bind (midpoint_rounded L v_min v_max) (\<lambda>v_avg.
           bind (series_at daily_data ''precipitation_sum'' i) (\<lambda>v_prec.
             Inr \<lparr>d_city = city, d_date = tm, temp_min = v_min, temp_max = v_max,
                  temp_avg = v_avg, precipitation_total = v_prec, wind_max = 0\<rparr>))))"
proof -
  have "valid_date tm \<and> year (dt_date now) \<le> year tm"
    using assms(5) assms(4) by (rule add_one_day_valid)
  then have r: "strptime_ymd (strftime_ymd tm) = Inr tm"
    using assms(6) by (simp add: strptime_strftime)
  show ?thesis
    unfolding transform_daily_data_def midpoint_rounded_def Let_def
    by (simp add: assms(1-4) assms(7) r bind_def split: sum.split)
qed

text \<open>
  Claim C3, as amended.  Take a payload with a \<^verbatim>\<open>city\<close> and a daily \<^verbatim>\<open>time\<close>
  array, and a run date (a date from the year 1000 on) that has a next day.
  If the array does not contain the date string of run date + 1 day, the daily
  transformation raises \<^verbatim>\<open>ValueError\<close>.  If it does, let \<open>i\<close> be the index of
  the first occurrence of that string, which is what \<^verbatim>\<open>index\<close> returns.
  Whenever the daily minimum, maximum and precipitation series have an entry
  at \<open>i\<close> and \<^verbatim>\<open>round((min + max) / 2, 1)\<close> can be computed, the transformation
  returns the one summary built from these entries, dated run date + 1 day.
  It raises \<^verbatim>\<open>IndexError\<close> when the minimum series is an array with no entry
  at \<open>i\<close>; when the minimum is there and the maximum series is such an array;
  and when both are there, the average is computed and the precipitation
  series is such an array.  Every summary it returns is dated run date + 1 day.
\<close>

theorem daily_tomorrow_lookup:
  assumes "getitem_key data ''city'' = Inr city"
    and "getitem_key data ''daily'' = Inr daily_data"
    and "getitem_key daily_data ''time'' = Inr (JArr ts)"
    and "add_one_day (dt_date now) = Inr tm"
    and "valid_date (dt_date now)" and "1000 \<le> year (dt_date now)"
  shows "(JStr (strftime_ymd tm) \<notin> set ts \<longrightarrow>
            transform_daily_data L now data = Inl ValueError) \<and>
         (JStr (strftime_ymd tm) \<in> set ts \<longrightarrow>
            (\<exists>i. index_of (JStr (strftime_ymd tm)) ts = Some i \<and>
               i < length ts \<and> ts ! i = JStr (strftime_ymd tm) \<and>
               (\<forall>j < i. ts ! j \<noteq> JStr (strftime_ymd tm)) \<and>
               (\<forall>v_min v_max v_avg v_prec.
                  series_at daily_data ''temperature_2m_min'' i = Inr v_min \<and>
                  series_at daily_data ''temperature_2m_max'' i = Inr v_max \<and>
                  midpoint_rounded L v_min v_max = Inr v_avg \<and>
                  series_at daily_data ''precipitation_sum'' i = Inr v_prec \<longrightarrow>
                  transform_daily_data L now data =
                    Inr \<lparr>d_city = city, d_date = tm, temp_min = v_min, temp_max = v_max,
                         temp_avg = v_avg, precipitation_total = v_prec, wind_max = 0\<rparr>) \<and>
               (\<forall>xs. getitem_key daily_data ''temperature_2m_min'' = Inr (JArr xs) \<and>
                     length xs \<le> i \<longrightarrow>
                     transform_daily_data L now data = Inl IndexError) \<and>
               (\<forall>v_min xs.
                  series_at daily_data ''temperature_2m_min'' i = Inr v_min \<and>
                  getitem_key daily_data ''temperature_2m_max'' = Inr (JArr xs) \<and>
                  length xs \<le> i \<longrightarrow>
                  transform_daily_data L now data = Inl IndexError) \<and>
               (\<forall>v_min v_max v_avg xs.
                  series_at daily_data ''temperature_2m_min'' i = Inr v_min \<and>
                  series_at daily_data ''temperature_2m_max'' i = Inr v_max \<and>
                  midpoint_rounded L v_min v_max = Inr v_avg \<and>
                  getitem_key daily_data ''precipitation_sum'' = Inr (JArr xs) \<and>
                  length xs \<le> i \<longrightarrow>
                  transform_daily_data L now data = Inl IndexError))) \<and>
         (\<forall>s. transform_daily_data L now data = Inr s \<longrightarrow> d_date s = tm)"
proof (intro conjI impI allI)
  assume "JStr (strftime_ymd tm) \<notin> set ts"
  with assms(1-4) show "transform_daily_data L now data = Inl ValueError"
    by (rule transform_daily_data_absent)
next
  assume "JStr (strftime_ymd tm) \<in> set ts"
  then obtain i where i: "index_of (JStr (strftime_ymd tm)) ts = Some i"
    using index_of_None [of "JStr (strftime_ymd tm)" ts]
    by (cases "index_of (JStr (strftime_ymd tm)) ts") auto
  have bound: "i < length ts" "ts ! i = JStr (strftime_ymd tm)"
    using index_of_Some [OF i] by simp_all
  have first: "\<forall>j < i. ts ! j \<noteq> JStr (strftime_ymd tm)"
    using index_of_first [OF i] by blast
  note eq = transform_daily_data_at [OF assms i, of L]
  have found: "\<forall>v_min v_max v_avg v_prec.
          series_at daily_data ''temperature_2m_min'' i = Inr v_min \<and>
          series_at daily_data ''temperature_2m_max'' i = Inr v_max \<and>
          midpoint_rounded L v_min v_max = Inr v_avg \<and>
          series_at daily_data ''precipitation_sum'' i = Inr v_prec \<longrightarrow>
          transform_daily_data L now data =
            Inr \<lparr>d_city = city, d_date = tm, temp_min = v_min, temp_max = v_max,
                 temp_avg = v_avg, precipitation_total = v_prec, wind_max = 0\<rparr>"
    by (simp add: eq bind_Inr)
  have short_min: "\<forall>xs. getitem_key daily_data ''temperature_2m_min'' = Inr (JArr xs) \<and>
                     length xs \<le> i \<longrightarrow>
                     transform_daily_data L now data = Inl IndexError"
    by (simp add: eq series_at_short bind_Inl)
  have short_max: "\<forall>v_min xs.
          series_at daily_data ''temperature_2m_min'' i = Inr v_min \<and>
          getitem_key daily_data ''temperature_2m_max'' = Inr (JArr xs) \<and>
          length xs \<le> i \<longrightarrow>
          transform_daily_data L now data = Inl IndexError"
    by (simp add: eq series_at_short bind_Inl bind_Inr)
  have short_prec: "\<forall>v_min v_max v_avg xs.
          series_at daily_data ''temperature_2m_min'' i = Inr v_min \<and>
          series_at daily_data ''temperature_2m_max'' i = Inr v_max \<and>
          midpoint_rounded L v_min v_max = Inr v_avg \<and>
          getitem_key daily_data ''precipitation_sum'' = Inr (JArr xs) \<and>
          length xs \<le> i \<longrightarrow>
          transform_daily_data L now data = Inl IndexError"
    by (simp add: eq series_at_short bind_Inl bind_Inr)
  from i bound first found short_min short_max short_prec
  show "\<exists>i. index_of (JStr (strftime_ymd tm)) ts = Some i \<and>
               i < length ts \<and> ts ! i = JStr (strftime_ymd tm) \<and>
               (\<forall>j < i. ts ! j \<noteq> JStr (strftime_ymd tm)) \<and>
               (\<forall>v_min v_max v_avg v_prec.
                  series_at daily_data ''temperature_2m_min'' i = Inr v_min \<and>
                  series_at daily_data ''temperature_2m_max'' i = Inr v_max \<and>
                  midpoint_rounded L v_min v_max = Inr v_avg \<and>
                  series_at daily_data ''precipitation_sum'' i = Inr v_prec \<longrightarrow>
                  transform_daily_data L now data =
                    Inr \<lparr>d_city = city, d_date = tm, temp_min = v_min, temp_max = v_max,
                         temp_avg = v_avg, precipitation_total = v_prec, wind_max = 0\<rparr>) \<and>
               (\<forall>xs. getitem_key daily_data ''temperature_2m_min'' = Inr (JArr xs) \<and>
                     length xs \<le> i \<longrightarrow>
                     transform_daily_data L now data = Inl IndexError) \<and>
               (\<forall>v_min xs.
                  series_at daily_data ''temperature_2m_min'' i = Inr v_min \<and>
                  getitem_key daily_data ''temperature_2m_max'' = Inr (JArr xs) \<and>
                  length xs \<le> i \<longrightarrow>
                  transform_daily_data L now data = Inl IndexError) \<and>
               (\<forall>v_min v_max v_avg xs.
                  series_at daily_data ''temperature_2m_min'' i = Inr v_min \<and>
                  series_at daily_data ''temperature_2m_max'' i = Inr v_max \<and>
                  midpoint_rounded L v_min v_max = Inr v_avg \<and>
                  getitem_key daily_data ''precipitation_sum'' = Inr (JArr xs) \<and>
                  length xs \<le> i \<longrightarrow>
                  transform_daily_data L now data = Inl IndexError)"
    by (intro exI [of _ i] conjI)
next
  fix s
  assume "transform_daily_data L now data = Inr s"
  then show "d_date s = tm"
  proof (rule transform_daily_data_Inr)
    fix city' daily_data' tm' tseries i v_min v_max v_sum v_half v_avg date v_prec
    assume t: "add_one_day (dt_date now) = Inr tm'"
      and p: "strptime_ymd (strftime_ymd tm') = Inr date"
      and s: "s = \<lparr>d_city = city', d_date = date, temp_min = v_min, temp_max = v_max,
               temp_avg = v_avg, precipitation_total = v_prec, wind_max = 0\<rparr>"
    from t assms(4) have eq: "tm' = tm" by simp
    have "valid_date tm \<and> year (dt_date now) \<le> year tm"
      using assms(5) assms(4) by (rule add_one_day_valid)
    then have "strptime_ymd (strftime_ymd tm) = Inr tm"
      using assms(6) by (simp add: strptime_strftime)
    with p eq have "date = tm" by simp
    with s show "d_date s = tm" by simp
  qed
qed

lemma short_daily_result:
  "transform_daily_data exact_lib sample_now short_payload = Inl IndexError"
  by (simp add: transform_daily_data_def short_payload_def short_daily_def bind_def
      sample_tomorrow sample_tomorrow_text series_at_def)

theorem daily_short_series_counterexample:
  "getitem_key short_payload ''daily'' = Inr short_daily \<and>
   getitem_key short_daily ''time'' = Inr (JArr [JStr ''2025-10-10'', JStr ''2025-10-11'']) \<and>
   add_one_day (dt_date sample_now) = Inr \<lparr>year = 2025, month = 10, day = 11\<rparr> \<and>
   strftime_ymd \<lparr>year = 2025, month = 10, day = 11\<rparr> = ''2025-10-11'' \<and>
   transform_daily_data exact_lib sample_now short_payload = Inl IndexError"
  using short_daily_result sample_tomorrow sample_tomorrow_text
  by (simp add: short_payload_def short_daily_def)

theorem daily_tomorrow_lookup_witness:
  "transform_daily_data exact_lib sample_now stale_payload = Inl ValueError \<and>
   transform_daily_data exact_lib sample_now sample_payload = Inr sample_summary \<and>
   d_date sample_summary = \<lparr>year = 2025, month = 10, day = 11\<rparr> \<and>
   transform_daily_data exact_lib sample_now short_payload = Inl IndexError"
proof -
  have v: "valid_date (dt_date sample_now)" "1000 \<le> year (dt_date sample_now)"
    by (simp_all add: sample_now_def valid_date_def days_in_month_def)
  have stale: "getitem_key stale_payload ''city'' = Inr (JStr ''Samara'')"
    "getitem_key stale_payload ''daily'' = Inr stale_daily"
    "getitem_key stale_daily ''time'' = Inr (JArr [JStr ''2025-10-09'', JStr ''2025-10-10''])"
    by (simp_all add: stale_payload_def stale_daily_def)
  have absent: "JStr (strftime_ymd \<lparr>year = 2025, month = 10, day = 11\<rparr>)
                  \<notin> set [JStr ''2025-10-09'', JStr ''2025-10-10'' :: rat json]"
    by (simp add: sample_tomorrow_text)
  have one: "transform_daily_data exact_lib sample_now stale_payload = Inl ValueError"
    using daily_tomorrow_lookup [OF stale sample_tomorrow v, of exact_lib] absent by blast
  have present: "JStr (strftime_ymd \<lparr>year = 2025, month = 10, day = 11\<rparr>)
                   \<in> set [JStr ''2025-10-10'', JStr ''2025-10-11'' :: rat json]"
    by (simp add: sample_tomorrow_text)
  have sample: "getitem_key sample_payload ''city'' = Inr (JStr ''Samara'')"
    "getitem_key sample_payload ''daily'' = Inr sample_daily"
    "getitem_key sample_daily ''time'' = Inr (JArr [JStr ''2025-10-10'', JStr ''2025-10-11''])"
    by (simp_all add: sample_payload_def sample_daily_def)
  note at_sample = daily_tomorrow_lookup [OF sample sample_tomorrow v, of exact_lib,
      THEN conjunct2, THEN conjunct1, rule_format, OF present]
  obtain i where i: "index_of (JStr ''2025-10-11'')
                       [JStr ''2025-10-10'', JStr ''2025-10-11'' :: rat json] = Some i"
    and found: "\<forall>v_min v_max v_avg v_prec.
          series_at sample_daily ''temperature_2m_min'' i = Inr v_min \<and>
          series_at sample_daily ''temperature_2m_max'' i = Inr v_max \<and>
          midpoint_rounded exact_lib v_min v_max = Inr v_avg \<and>
          series_at sample_daily ''precipitation_sum'' i = Inr v_prec \<longrightarrow>
          transform_daily_data exact_lib sample_now sample_payload =
            Inr \<lparr>d_city = JStr ''Samara'', d_date = \<lparr>year = 2025, month = 10, day = 11\<rparr>,
                 temp_min = v_min, temp_max = v_max, temp_avg = v_avg,
                 precipitation_total = v_prec, wind_max = 0\<rparr>"
    using at_sample unfolding sample_tomorrow_text
    by (elim exE conjE) (rule that, assumption+)
  have "i = 1"
    using i by simp
  have avg: "midpoint_rounded exact_lib (JNum (16 / 5)) (JNum (113 / 10)) = Inr (JNum (36 / 5))"
    by code_simp
  have two: "transform_daily_data exact_lib sample_now sample_payload = Inr sample_summary"
    using found [rule_format, of "JNum (16 / 5)" "JNum (113 / 10)" "JNum (36 / 5)" "JNum (3 / 2)"]
    by (simp add: \<open>i = 1\<close> sample_daily_def series_at_def bind_def avg sample_summary_def)
  have three: "d_date sample_summary = \<lparr>year = 2025, month = 10, day = 11\<rparr>"
    by (simp add: sample_summary_def)
  have short: "getitem_key short_payload ''city'' = Inr (JStr ''Samara'')"
    "getitem_key short_payload ''daily'' = Inr short_daily"
    "getitem_key short_daily ''time'' = Inr (JArr [JStr ''2025-10-10'', JStr ''2025-10-11''])"
    by (simp_all add: short_payload_def short_daily_def)
  note at_short = daily_tomorrow_lookup [OF short sample_tomorrow v, of exact_lib,
      THEN conjunct2, THEN conjunct1, rule_format, OF present]
  obtain k where k: "index_of (JStr ''2025-10-11'')
                       [JStr ''2025-10-10'', JStr ''2025-10-11'' :: rat json] = Some k"
    and raises: "\<forall>xs. getitem_key short_daily ''temperature_2m_min'' = Inr (JArr xs) \<and>
                   length xs \<le> k \<longrightarrow>
                   transform_daily_data exact_lib sample_now short_payload = Inl IndexError"
    using at_short unfolding sample_tomorrow_text
    by (elim exE conjE) (rule that, assumption+)
  have "k = 1"
    using k by simp
  have four: "transform_daily_data exact_lib sample_now short_payload = Inl IndexError"
    using raises [rule_format, of "[JNum 2]"]
    by (simp add: \<open>k = 1\<close> short_daily_def)
  from one two three four show ?thesis by simp
qed

section \<open>The hourly transformation\<close>

lemma collect_filter_map:
  assumes "\<forall>i \<in> set ixs. f i = Inr (if P i then Some (g i) else None)"
  shows "collect f ixs = Inr (map g (filter P ixs))"
  using assms by (induction ixs) simp_all

lemma series_at_array:
  assumes "getitem_key series name = Inr (JArr xs)" and "i < length xs"
  shows "series_at series name i = Inr (xs ! i)"
  using assms by (simp add: series_at_def bind_def)

lemma hourly_item_well_formed:
  assumes times: "getitem_key hourly_data ''time'' = Inr (JArr (map JStr ts))"
    and parsed: "map (fromisoformat L) ts = map Some dts"
    and temps: "getitem_key hourly_data ''temperature_2m'' = Inr (JArr temps)"
      "length temps = length ts"
    and precs: "getitem_key hourly_data ''precipitation'' = Inr (JArr precs)"
      "length precs = length ts"
    and speeds: "getitem_key hourly_data ''wind_speed_10m'' = Inr (JArr speeds)"
      "length speeds = length ts"
    and dirs: "getitem_key hourly_data ''wind_direction_10m'' = Inr (JArr dirs)"
      "length dirs = length ts"
    and i: "i < length ts"
  shows "hourly_item L city hourly_data tm i =
           Inr (if dt_date (dts ! i) = tm
                then Some \<lparr>h_city = city, h_date = tm, hour = dts ! i,
                           temperature = temps ! i, precipitation = precs ! i,
                           wind_speed = speeds ! i, wind_direction = dirs ! i\<rparr>
                else None)"
proof -
  have t: "series_at hourly_data ''time'' i = Inr (JStr (ts ! i))"
    using series_at_array [OF times] i by simp
  have "length dts = length ts"
    using parsed by (metis length_map)
  then have "map (fromisoformat L) ts ! i = map Some dts ! i" "i < length dts"
    using parsed i by simp_all
  then have p: "fromisoformat L (ts ! i) = Some (dts ! i)"
    using i by simp
  have s: "series_at hourly_data ''temperature_2m'' i = Inr (temps ! i)"
    "series_at hourly_data ''precipitation'' i = Inr (precs ! i)"
    "series_at hourly_data ''wind_speed_10m'' i = Inr (speeds ! i)"
    "series_at hourly_data ''wind_direction_10m'' i = Inr (dirs ! i)"
    using i temps precs speeds dirs by (simp_all add: series_at_array)
  show ?thesis
    by (simp add: hourly_item_def t p s bind_Inr)
qed

text \<open>
  Claim C2.  For a well-formed payload (a \<^verbatim>\<open>city\<close>, and under \<^verbatim>\<open>hourly\<close> a
  \<^verbatim>\<open>time\<close> array of timestamps that parse, with the four measurement arrays
  of the same length) the hourly transformation returns, in the order of the
  source series, exactly one record for each index whose timestamp has the
  date run date + 1 day, carrying the city, that date, the parsed timestamp
  and the four measurements of that index; so no record has any other date.
\<close>

theorem hourly_keeps_tomorrow:
  assumes "getitem_key data ''city'' = Inr city"
    and "getitem_key data ''hourly'' = Inr hourly_data"
    and "add_one_day (dt_date now) = Inr tm"
    and "getitem_key hourly_data ''time'' = Inr (JArr (map JStr ts))"
    and "map (fromisoformat L) ts = map Some dts"
    and "getitem_key hourly_data ''temperature_2m'' = Inr (JArr temps)"
    and "length temps = length ts"
    and "getitem_key hourly_data ''precipitation'' = Inr (JArr precs)"
    and "length precs = length ts"
    and "getitem_key hourly_data ''wind_speed_10m'' = Inr (JArr speeds)"
    and "length speeds = length ts"
    and "getitem_key hourly_data ''wind_direction_10m'' = Inr (JArr dirs)"
    and "length dirs = length ts"
  shows "transform_hourly_data L now data =
           Inr (map (\<lambda>i. \<lparr>h_city = city, h_date = tm, hour = dts ! i,
                            temperature = temps ! i, precipitation = precs ! i,
                            wind_speed = speeds ! i, wind_direction = dirs ! i\<rparr>)
                  (filter (\<lambda>i. dt_date (dts ! i) = tm) [0..<length ts]))"
proof -
  have "\<forall>i \<in> set [0..<length ts].
          hourly_item L city hourly_data tm i =
            Inr (if dt_date (dts ! i) = tm
                 then Some \<lparr>h_city = city, h_date = tm, hour = dts ! i,
                            temperature = temps ! i, precipitation = precs ! i,
                            wind_speed = speeds ! i, wind_direction = dirs ! i\<rparr>
                 else None)"
    using hourly_item_well_formed [OF assms(4-13)] by simp
  then have "collect (hourly_item L city hourly_data tm) [0..<length ts] =
           Inr (map (\<lambda>i. \<lparr>h_city = city, h_date = tm, hour = dts ! i,
                            temperature = temps ! i, precipitation = precs ! i,
                            wind_speed = speeds ! i, wind_direction = dirs ! i\<rparr>)
                  (filter (\<lambda>i. dt_date (dts ! i) = tm) [0..<length ts]))"
    by (rule collect_filter_map)
  then show ?thesis
    using assms(1-4) by (simp add: transform_hourly_data_def bind_Inr)
qed

lemma sample_times_parsed:
  "map (fromisoformat exact_lib) [''2025-10-10T23:00'', ''2025-10-11T00:00'', ''2025-10-11T01:00'']
     = map Some sample_times"
  by code_simp

theorem hourly_keeps_tomorrow_witness:
  "transform_hourly_data exact_lib sample_now sample_payload = Inr sample_hourly_records"
proof -
  have "transform_hourly_data exact_lib sample_now sample_payload =
           Inr (map (\<lambda>i. \<lparr>h_city = JStr ''Samara'', h_date = \<lparr>year = 2025, month = 10, day = 11\<rparr>,
                            hour = sample_times ! i,
                            temperature = [JNum 5, JNum 4, JNum (7 / 2)] ! i,
                            precipitation = [JNum 0, JNum 0, JNum (1 / 5)] ! i,
                            wind_speed = [JNum 12, JNum 11, JNum 9] ! i,
                            wind_direction = [JNum 180, JNum 190, JNum 200] ! i\<rparr>)
                  (filter (\<lambda>i. dt_date (sample_times ! i) = \<lparr>year = 2025, month = 10, day = 11\<rparr>)
                     [0..<length [''2025-10-10T23:00'', ''2025-10-11T00:00'', ''2025-10-11T01:00'']]))"
  proof (rule hourly_keeps_tomorrow [where hourly_data = sample_hourly])
    show "map (fromisoformat exact_lib)
            [''2025-10-10T23:00'', ''2025-10-11T00:00'', ''2025-10-11T01:00''] = map Some sample_times"
      by (rule sample_times_parsed)
  qed (simp_all add: sample_payload_def sample_hourly_def sample_tomorrow)
  moreover have "[0..<length [''2025-10-10T23:00'', ''2025-10-11T00:00'', ''2025-10-11T01:00'']]
                   = [0, 1, 2]"
    by (simp add: upt_rec)
  ultimately show ?thesis
    by (simp add: sample_times_def sample_hourly_records_def)
qed

section \<open>The hourly load\<close>






section \<open>Subscriber resolution\<close>

lemma chat_ids_loop_well_formed:
  assumes "\<forall>u \<in> set updates. well_formed_update u"
  shows "chat_ids_loop L updates = Inr (map (py_str L) (message_chat_ids updates))"
  using assms
proof (induction updates)
  case Nil
  then show ?case by simp
next
  case (Cons u us)
  then have wf: "well_formed_update u" and rest: "\<forall>u \<in> set us. well_formed_update u"
    by simp_all
  from wf obtain kvs where u: "u = JObj kvs"
    by (cases u) (simp_all add: well_formed_update_def)
  have IH: "chat_ids_loop L us = Inr (map (py_str L) (message_chat_ids us))"
    using rest by (rule Cons.IH)
  show ?case
  proof (cases "has_message u")
    case True
    with wf u obtain ident where ident: "update_chat_id u = Inr ident"
      by (auto simp: well_formed_update_def split: sum.splits)
    from True have c: "py_contains u ''message'' = Inr True"
      by (simp add: has_message_def)
    from ident obtain message chat where
      "getitem_key u ''message'' = Inr message" "getitem_key message ''chat'' = Inr chat"
      "getitem_key chat ''id'' = Inr ident"
      unfolding update_chat_id_def bind_Inr_iff by blast
    then show ?thesis
      using True ident IH c by (simp add: bind_Inr del: py_contains.simps getitem_key.simps)
  next
    case False
    with u have c: "py_contains u ''message'' = Inr False"
      by (simp add: has_message_def)
    show ?thesis
      using False IH c by (simp add: bind_Inr del: py_contains.simps)
  qed
qed

lemma get_chat_ids_error:
  assumes "bind (http_json (telegram_get_updates E w bot_token)) (chat_ids_of (lib E)) = Inl e"
  shows "get_chat_ids E bot_token w =
           ([], w @ [Get_updates bot_token, Log (Error_getting_chat_ids e)])"
  using assms by (simp add: get_chat_ids_def)

lemma send_telegram_notifications_nobody:
  assumes "getenv_bot_token E w = Some bot_token" and "bot_token \<noteq> []"
    and "fst (get_chat_ids E bot_token w) = []"
  shows "send_telegram_notifications E daily_data w =
           (Inr (), snd (get_chat_ids E bot_token w) @ [Log No_users_found])"
proof (cases "get_chat_ids E bot_token w")
  case (Pair chat_ids w1)
  with assms show ?thesis
    by (simp add: send_telegram_notifications_def)
qed

lemma chat_ids_loop_returns:
  "chat_ids_loop L updates = Inr ids \<Longrightarrow> ids = map (py_str L) (message_chat_ids updates)"
proof (induction updates arbitrary: ids)
  case Nil
  then show ?case by simp
next
  case (Cons u us)
  from Cons.prems obtain present where c: "py_contains u ''message'' = Inr present"
    and body: "(if present then
         bind (getitem_key u ''message'') (\<lambda>message.
         bind (getitem_key message ''chat'') (\<lambda>chat.
         bind (getitem_key chat ''id'') (\<lambda>ident.
         bind (chat_ids_loop L us) (\<lambda>ids. Inr (py_str L ident # ids)))))
       else chat_ids_loop L us) = Inr ids"
    unfolding chat_ids_loop.simps bind_Inr_iff by blast
  show ?case
  proof (cases present)
    case True
    with body have "bind (getitem_key u ''message'') (\<lambda>message.
         bind (getitem_key message ''chat'') (\<lambda>chat.
         bind (getitem_key chat ''id'') (\<lambda>ident.
         bind (chat_ids_loop L us) (\<lambda>ids. Inr (py_str L ident # ids))))) = Inr ids"
      by (simp only: if_True)
    then obtain message chat ident rest where
      m: "getitem_key u ''message'' = Inr message"
      and ch: "getitem_key message ''chat'' = Inr chat"
      and i: "getitem_key chat ''id'' = Inr ident"
      and r: "chat_ids_loop L us = Inr rest"
      and ids: "ids = py_str L ident # rest"
      unfolding bind_Inr_iff by blast
    have "update_chat_id u = Inr ident"
      using m ch i by (simp add: update_chat_id_def bind_Inr del: getitem_key.simps)
    moreover have "has_message u"
      using c True by (simp add: has_message_def)
    moreover have "rest = map (py_str L) (message_chat_ids us)"
      using r by (rule Cons.IH)
    ultimately show ?thesis
      using ids by simp
  next
    case False
    with body have "chat_ids_loop L us = Inr ids"
      by simp
    then have "ids = map (py_str L) (message_chat_ids us)"
      by (rule Cons.IH)
    moreover have "\<not> has_message u"
      using c False by (simp add: has_message_def)
    ultimately show ?thesis
      by simp
  qed
qed

lemma chat_ids_of_Some:
  assumes "chat_ids_of L data = Inr (Some ids)"
  shows "\<exists>ok result updates.
           getitem_key data ''ok'' = Inr ok \<and> py_truthy L ok \<and>
           getitem_key data ''result'' = Inr result \<and> py_iter result = Inr updates \<and>
           distinct ids \<and> set ids = py_str L ` set (message_chat_ids updates)"
proof -
  from assms obtain ok where ok: "getitem_key data ''ok'' = Inr ok"
    and body: "(if \<not> py_truthy L ok then Inr None
       else bind (getitem_key data ''result'') (\<lambda>result.
            bind (py_iter result) (\<lambda>updates.
            bind (chat_ids_loop L updates) (\<lambda>ids. Inr (Some (remdups ids)))))) = Inr (Some ids)"
    unfolding chat_ids_of_def bind_Inr_iff by blast
  from body have truthy: "py_truthy L ok"
    by (cases "py_truthy L ok") simp_all
  with body have "bind (getitem_key data ''result'') (\<lambda>result.
            bind (py_iter result) (\<lambda>updates.
            bind (chat_ids_loop L updates) (\<lambda>ids. Inr (Some (remdups ids))))) = Inr (Some ids)"
    by (simp only: not_True_eq_False if_False)
  then obtain result updates found where
    r: "getitem_key data ''result'' = Inr result"
    and u: "py_iter result = Inr updates"
    and l: "chat_ids_loop L updates = Inr found"
    and ids: "ids = remdups found"
    unfolding bind_Inr_iff by blast
  from l have "found = map (py_str L) (message_chat_ids updates)"
    by (rule chat_ids_loop_returns)
  with ids have "distinct ids" "set ids = py_str L ` set (message_chat_ids updates)"
    by simp_all
  with ok truthy r u show ?thesis
    by blast
qed

lemma get_chat_ids_total:
  "fst (get_chat_ids E bot_token w) = [] \<or>
    (\<exists>response ok result updates ids.
       http_json (telegram_get_updates E w bot_token) = Inr response \<and>
       getitem_key response ''ok'' = Inr ok \<and> py_truthy (lib E) ok \<and>
       getitem_key response ''result'' = Inr result \<and> py_iter result = Inr updates \<and>
       chat_ids_of (lib E) response = Inr (Some ids) \<and>
       distinct ids \<and> set ids = py_str (lib E) ` set (message_chat_ids updates) \<and>
       get_chat_ids E bot_token w =
         (ids, w @ [Get_updates bot_token, Log (Found_users (length ids))]))"
proof (cases "http_json (telegram_get_updates E w bot_token)")
  case (Inl e')
  then show ?thesis
    by (simp add: get_chat_ids_def bind_def)
next
  case (Inr response)
  show ?thesis
  proof (cases "chat_ids_of (lib E) response")
    case (Inl e')
    with Inr show ?thesis
      by (simp add: get_chat_ids_def bind_def)
  next
    case found: (Inr r)
    show ?thesis
    proof (cases r)
      case None
      with Inr found show ?thesis
        by (simp add: get_chat_ids_def bind_def)
    next
      case (Some ids)
      with found have f: "chat_ids_of (lib E) response = Inr (Some ids)"
        by simp
      then obtain ok result updates where
        "getitem_key response ''ok'' = Inr ok" "py_truthy (lib E) ok"
        "getitem_key response ''result'' = Inr result" "py_iter result = Inr updates"
        "distinct ids" "set ids = py_str (lib E) ` set (message_chat_ids updates)"
        using chat_ids_of_Some by blast
      moreover have "get_chat_ids E bot_token w =
          (ids, w @ [Get_updates bot_token, Log (Found_users (length ids))])"
        using Inr f by (simp add: get_chat_ids_def bind_def)
      ultimately show ?thesis
        using Inr f by blast
    qed
  qed
qed

text \<open>
  Claim C10.  \<^verbatim>\<open>get_chat_ids\<close> returns a list for every token and every
  answer of the bot API, and never an exception: the empty list, or the
  identifiers read from a response that was received and understood.  It
  returns the empty list, after printing the error, when the HTTP call fails
  (no response, a status from 400 to 599, a body that is not JSON) and when
  the parsed response is malformed, so that reading it raises; it returns the
  empty list when the \<^verbatim>\<open>ok\<close> flag is false.  Whenever it returns the empty
  list, a notification step with a token ends without exception and without
  sending anything.  When \<^verbatim>\<open>ok\<close> is true and \<^verbatim>\<open>result\<close> is a list of
  well-formed updates, the list returned has no duplicates and its elements
  are the \<^verbatim>\<open>str\<close> of the chat identifiers of the updates that contain a
  message.  More generally, every list that is returned and is not empty
  comes from a response with a true \<^verbatim>\<open>ok\<close> whose \<^verbatim>\<open>result\<close> could be iterated
  without an exception: it has no duplicates and its elements are the
  \<^verbatim>\<open>str\<close> of the chat identifiers of the updates in it that contain a
  message.
\<close>

theorem get_chat_ids_never_raises:
  "(http_json (telegram_get_updates E w bot_token) = Inl e \<longrightarrow>
      get_chat_ids E bot_token w =
        ([], w @ [Get_updates bot_token, Log (Error_getting_chat_ids e)])) \<and>
   (http_json (telegram_get_updates E w bot_token) = Inr data \<and>
    chat_ids_of (lib E) data = Inl e \<longrightarrow>
      get_chat_ids E bot_token w =
        ([], w @ [Get_updates bot_token, Log (Error_getting_chat_ids e)])) \<and>
   (http_json (telegram_get_updates E w bot_token) = Inr data \<and>
    getitem_key data ''ok'' = Inr ok \<and> \<not> py_truthy (lib E) ok \<longrightarrow>
      get_chat_ids E bot_token w = ([], w @ [Get_updates bot_token])) \<and>
   (getenv_bot_token E w = Some bot_token \<and> bot_token \<noteq> [] \<and>
    fst (get_chat_ids E bot_token w) = [] \<longrightarrow>
      send_telegram_notifications E daily_data w =
        (Inr (), snd (get_chat_ids E bot_token w) @ [Log No_users_found])) \<and>
   (http_json (telegram_get_updates E w bot_token) = Inr data \<and>
    getitem_key data ''ok'' = Inr ok \<and> py_truthy (lib E) ok \<and>
    getitem_key data ''result'' = Inr (JArr updates) \<and>
    (\<forall>u \<in> set updates. well_formed_update u) \<longrightarrow>
      distinct (fst (get_chat_ids E bot_token w)) \<and>
      set (fst (get_chat_ids E bot_token w)) = py_str (lib E) ` set (message_chat_ids updates) \<and>
      snd (get_chat_ids E bot_token w) =
        w @ [Get_updates bot_token,
             Log (Found_users (length (fst (get_chat_ids E bot_token w))))]) \<and>
   (fst (get_chat_ids E bot_token w) = [] \<or>
    (\<exists>response ok result updates ids.
       http_json (telegram_get_updates E w bot_token) = Inr response \<and>
       getitem_key response ''ok'' = Inr ok \<and> py_truthy (lib E) ok \<and>
       getitem_key response ''result'' = Inr result \<and> py_iter result = Inr updates \<and>
       chat_ids_of (lib E) response = Inr (Some ids) \<and>
       distinct ids \<and> set ids = py_str (lib E) ` set (message_chat_ids updates) \<and>
       get_chat_ids E bot_token w =
         (ids, w @ [Get_updates bot_token, Log (Found_users (length ids))])))"
proof (intro conjI impI)
  show "fst (get_chat_ids E bot_token w) = [] \<or>
    (\<exists>response ok result updates ids.
       http_json (telegram_get_updates E w bot_token) = Inr response \<and>
       getitem_key response ''ok'' = Inr ok \<and> py_truthy (lib E) ok \<and>
       getitem_key response ''result'' = Inr result \<and> py_iter result = Inr updates \<and>
       chat_ids_of (lib E) response = Inr (Some ids) \<and>
       distinct ids \<and> set ids = py_str (lib E) ` set (message_chat_ids updates) \<and>
       get_chat_ids E bot_token w =
         (ids, w @ [Get_updates bot_token, Log (Found_users (length ids))]))"
    by (rule get_chat_ids_total)
next
  assume "http_json (telegram_get_updates E w bot_token) = Inl e"
  then have "bind (http_json (telegram_get_updates E w bot_token)) (chat_ids_of (lib E)) = Inl e"
    by (simp add: bind_Inl)
  then show "get_chat_ids E bot_token w =
        ([], w @ [Get_updates bot_token, Log (Error_getting_chat_ids e)])"
    by (rule get_chat_ids_error)
next
  assume "http_json (telegram_get_updates E w bot_token) = Inr data \<and>
    chat_ids_of (lib E) data = Inl e"
  then have "bind (http_json (telegram_get_updates E w bot_token)) (chat_ids_of (lib E)) = Inl e"
    by (simp add: bind_Inr)
  then show "get_chat_ids E bot_token w =
        ([], w @ [Get_updates bot_token, Log (Error_getting_chat_ids e)])"
    by (rule get_chat_ids_error)
next
  assume "http_json (telegram_get_updates E w bot_token) = Inr data \<and>
    getitem_key data ''ok'' = Inr ok \<and> \<not> py_truthy (lib E) ok"
  then show "get_chat_ids E bot_token w = ([], w @ [Get_updates bot_token])"
    by (simp add: get_chat_ids_def chat_ids_of_def bind_Inr)
next
  assume "getenv_bot_token E w = Some bot_token \<and> bot_token \<noteq> [] \<and>
    fst (get_chat_ids E bot_token w) = []"
  then show "send_telegram_notifications E daily_data w =
        (Inr (), snd (get_chat_ids E bot_token w) @ [Log No_users_found])"
    by (intro send_telegram_notifications_nobody) simp_all
next
  assume a: "http_json (telegram_get_updates E w bot_token) = Inr data \<and>
    getitem_key data ''ok'' = Inr ok \<and> py_truthy (lib E) ok \<and>
    getitem_key data ''result'' = Inr (JArr updates) \<and>
    (\<forall>u \<in> set updates. well_formed_update u)"
  then have "chat_ids_loop (lib E) updates = Inr (map (py_str (lib E)) (message_chat_ids updates))"
    by (intro chat_ids_loop_well_formed) simp
  with a have "chat_ids_of (lib E) data =
                 Inr (Some (remdups (map (py_str (lib E)) (message_chat_ids updates))))"
    by (simp add: chat_ids_of_def bind_Inr)
  with a have g: "get_chat_ids E bot_token w =
      (remdups (map (py_str (lib E)) (message_chat_ids updates)),
       w @ [Get_updates bot_token,
            Log (Found_users (length (remdups (map (py_str (lib E)) (message_chat_ids updates)))))])"
    by (simp add: get_chat_ids_def bind_Inr)
  show "distinct (fst (get_chat_ids E bot_token w))"
    by (simp add: g)
  show "set (fst (get_chat_ids E bot_token w)) = py_str (lib E) ` set (message_chat_ids updates)"
    by (simp add: g)
  show "snd (get_chat_ids E bot_token w) =
        w @ [Get_updates bot_token,
             Log (Found_users (length (fst (get_chat_ids E bot_token w))))]"
    by (simp add: g)
qed

lemma str_exact_42: "py_str exact_lib (JNum 42) = ''42''"
  by code_simp

theorem get_chat_ids_never_raises_witness:
  "get_chat_ids offline_bot_env ''TOKEN'' [] =
     ([], [Get_updates ''TOKEN'', Log (Error_getting_chat_ids RequestException)]) \<and>
   get_chat_ids malformed_bot_env ''TOKEN'' [] =
     ([], [Get_updates ''TOKEN'', Log (Error_getting_chat_ids TypeError)]) \<and>
   get_chat_ids denied_bot_env ''TOKEN'' [] = ([], [Get_updates ''TOKEN'']) \<and>
   send_telegram_notifications offline_bot_env sample_summary [] =
     (Inr (), [Get_updates ''TOKEN'', Log (Error_getting_chat_ids RequestException),
               Log No_users_found]) \<and>
   distinct (fst (get_chat_ids calm_env ''TOKEN'' [])) \<and>
   set (fst (get_chat_ids calm_env ''TOKEN'' [])) = {''42''}"
proof -
  have one: "get_chat_ids offline_bot_env ''TOKEN'' [] =
     ([], [] @ [Get_updates ''TOKEN'', Log (Error_getting_chat_ids RequestException)])"
  proof -
    have "http_json (telegram_get_updates offline_bot_env [] ''TOKEN'') = Inl RequestException"
      by (simp add: offline_bot_env_def calm_env_def http_json_def)
    with get_chat_ids_never_raises [of offline_bot_env "[]" "''TOKEN''" RequestException]
    show ?thesis by blast
  qed
  have two: "get_chat_ids malformed_bot_env ''TOKEN'' [] =
     ([], [] @ [Get_updates ''TOKEN'', Log (Error_getting_chat_ids TypeError)])"
  proof -
    have "http_json (telegram_get_updates malformed_bot_env [] ''TOKEN'') = Inr (JArr []) \<and>
          chat_ids_of (lib malformed_bot_env) (JArr []) = Inl TypeError"
      by (simp add: malformed_bot_env_def calm_env_def http_json_def chat_ids_of_def bind_def)
    with get_chat_ids_never_raises [of malformed_bot_env "[]" "''TOKEN''" TypeError "JArr []"]
    show ?thesis by blast
  qed
  have three: "get_chat_ids denied_bot_env ''TOKEN'' [] = ([], [] @ [Get_updates ''TOKEN''])"
  proof -
    have "http_json (telegram_get_updates denied_bot_env [] ''TOKEN'') =
            Inr (JObj [(''ok'', JBool False)]) \<and>
          getitem_key (JObj [(''ok'', JBool False)]) ''ok'' = Inr (JBool False) \<and>
          \<not> py_truthy (lib denied_bot_env) (JBool False)"
      by (simp add: denied_bot_env_def calm_env_def http_json_def)
    with get_chat_ids_never_raises [of denied_bot_env "[]" "''TOKEN''" _
        "JObj [(''ok'', JBool False)]" "JBool False"]
    show ?thesis by blast
  qed
  have four: "send_telegram_notifications offline_bot_env sample_summary [] =
     (Inr (), snd (get_chat_ids offline_bot_env ''TOKEN'' []) @ [Log No_users_found])"
  proof -
    have "getenv_bot_token offline_bot_env [] = Some ''TOKEN'' \<and> ''TOKEN'' \<noteq> [] \<and>
          fst (get_chat_ids offline_bot_env ''TOKEN'' []) = []"
      by (simp add: one) (simp add: offline_bot_env_def calm_env_def)
    with get_chat_ids_never_raises [of offline_bot_env "[]" "''TOKEN''" _ _ _ sample_summary]
    show ?thesis by blast
  qed
  have updates: "getitem_key sample_updates ''result'' =
      Inr (JArr [JObj [(''update_id'', JNum 1),
                       (''message'', JObj [(''chat'', JObj [(''id'', JNum 42)])])],
                 JObj [(''update_id'', JNum 2), (''edited_message'', JObj [])],
                 JObj [(''update_id'', JNum 3),
                       (''message'', JObj [(''chat'', JObj [(''id'', JNum 42)])])]])"
    by (simp add: sample_updates_def)
  have five: "http_json (telegram_get_updates calm_env [] ''TOKEN'') = Inr sample_updates \<and>
      getitem_key sample_updates ''ok'' = Inr (JBool True) \<and>
      py_truthy (lib calm_env) (JBool True) \<and>
      getitem_key sample_updates ''result'' =
        Inr (JArr [JObj [(''update_id'', JNum 1),
                       (''message'', JObj [(''chat'', JObj [(''id'', JNum 42)])])],
                 JObj [(''update_id'', JNum 2), (''edited_message'', JObj [])],
                 JObj [(''update_id'', JNum 3),
                       (''message'', JObj [(''chat'', JObj [(''id'', JNum 42)])])]]) \<and>
      (\<forall>u \<in> set [JObj [(''update_id'', JNum 1),
                       (''message'', JObj [(''chat'', JObj [(''id'', JNum 42)])])],
                 JObj [(''update_id'', JNum 2), (''edited_message'', JObj [])],
                 JObj [(''update_id'', JNum 3),
                       (''message'', JObj [(''chat'', JObj [(''id'', JNum (42 :: rat))])])]].
          well_formed_update u)"
    by (simp add: updates)
      (simp add: calm_env_def http_json_def sample_updates_def well_formed_update_def
        has_message_def update_chat_id_def bind_def)
  have ids: "message_chat_ids
      [JObj [(''update_id'', JNum 1),
             (''message'', JObj [(''chat'', JObj [(''id'', JNum 42)])])],
       JObj [(''update_id'', JNum 2), (''edited_message'', JObj [])],
       JObj [(''update_id'', JNum 3),
             (''message'', JObj [(''chat'', JObj [(''id'', JNum (42 :: rat))])])]]
      = [JNum 42, JNum 42]"
    by (simp add: has_message_def update_chat_id_def bind_def)
  note success = get_chat_ids_never_raises [of calm_env "[]" "''TOKEN''" _ sample_updates
      "JBool True" _, THEN conjunct2, THEN conjunct2, THEN conjunct2, THEN conjunct2,
      THEN conjunct1, rule_format, OF five]
  have lib: "lib calm_env = exact_lib"
    by (simp add: calm_env_def)
  have "py_str (lib calm_env) ` set [JNum 42, JNum 42] = {''42''}"
    by (simp add: lib str_exact_42)
  with success have six: "distinct (fst (get_chat_ids calm_env ''TOKEN'' [])) \<and>
     set (fst (get_chat_ids calm_env ''TOKEN'' [])) = {''42''}"
    by (simp only: ids)
  from one two three four six show ?thesis
    by simp
qed

section \<open>Notification without subscribers\<close>

lemma get_chat_ids_trace:
  "\<exists>printed. snd (get_chat_ids E bot_token w) = w @ [Get_updates bot_token] @ printed \<and>
          (printed = [] \<or> (\<exists>e. printed = [Log (Error_getting_chat_ids e)]) \<or>
           printed = [Log (Found_users (length (fst (get_chat_ids E bot_token w))))])"
proof (cases "bind (http_json (telegram_get_updates E w bot_token)) (chat_ids_of (lib E))")
  case (Inl e)
  then show ?thesis by (simp add: get_chat_ids_def)
next
  case (Inr r)
  then show ?thesis by (cases r) (simp_all add: get_chat_ids_def)
qed

text \<open>
  Claim C8, as amended.  When the bot credential is unset or empty, the
  dispatcher returns without exception after printing that the token is not
  configured, with no network call.  When the credential is set and
  subscriber resolution yields no subscriber, it returns without exception
  after one network call, the \<^verbatim>\<open>getUpdates\<close> request that resolves the
  subscribers, and after printing \<^verbatim>\<open>No users found\<close>: no message is sent.
  In both cases the line with the tally of successful and failed deliveries
  is not printed.
\<close>

theorem notify_without_subscribers:
  "((getenv_bot_token E w = None \<or> getenv_bot_token E w = Some []) \<longrightarrow>
      send_telegram_notifications E daily_data w = (Inr (), w @ [Log Bot_token_not_configured]) \<and>
      network_calls (snd (send_telegram_notifications E daily_data w)) = network_calls w) \<and>
   (getenv_bot_token E w = Some bot_token \<and> bot_token \<noteq> [] \<and>
    fst (get_chat_ids E bot_token w) = [] \<longrightarrow>
      (\<exists>printed. send_telegram_notifications E daily_data w =
                (Inr (), w @ [Get_updates bot_token] @ printed @ [Log No_users_found]) \<and>
              (printed = [] \<or> (\<exists>e. printed = [Log (Error_getting_chat_ids e)]) \<or>
               printed = [Log (Found_users 0)])) \<and>
      network_calls (snd (send_telegram_notifications E daily_data w)) =
        network_calls w @ [Get_updates bot_token])"
proof (intro conjI impI)
  assume a: "getenv_bot_token E w = None \<or> getenv_bot_token E w = Some []"
  then show r: "send_telegram_notifications E daily_data w =
                  (Inr (), w @ [Log Bot_token_not_configured])"
    by (auto simp: send_telegram_notifications_def)
  show "network_calls (snd (send_telegram_notifications E daily_data w)) = network_calls w"
    by (simp add: r network_calls_def)
next
  assume a: "getenv_bot_token E w = Some bot_token \<and> bot_token \<noteq> [] \<and>
    fst (get_chat_ids E bot_token w) = []"
  obtain printed where n: "snd (get_chat_ids E bot_token w) = w @ [Get_updates bot_token] @ printed"
    "printed = [] \<or> (\<exists>e. printed = [Log (Error_getting_chat_ids e)]) \<or>
     printed = [Log (Found_users (length (fst (get_chat_ids E bot_token w))))]"
    using get_chat_ids_trace [of E bot_token w] by blast
  have r: "send_telegram_notifications E daily_data w =
             (Inr (), snd (get_chat_ids E bot_token w) @ [Log No_users_found])"
    using a by (intro send_telegram_notifications_nobody) simp_all
  from n a have n': "printed = [] \<or> (\<exists>e. printed = [Log (Error_getting_chat_ids e)]) \<or>
               printed = [Log (Found_users 0)]"
    by simp
  from r n(1) n' show "\<exists>printed. send_telegram_notifications E daily_data w =
                (Inr (), w @ [Get_updates bot_token] @ printed @ [Log No_users_found]) \<and>
              (printed = [] \<or> (\<exists>e. printed = [Log (Error_getting_chat_ids e)]) \<or>
               printed = [Log (Found_users 0)])"
    by (intro exI [of _ printed]) simp
  from n' have "network_calls printed = []"
    by (auto simp: network_calls_def)
  then show "network_calls (snd (send_telegram_notifications E daily_data w)) =
        network_calls w @ [Get_updates bot_token]"
    using r n(1) by (simp add: network_calls_def)
qed

lemma quiet_notification:
  "send_telegram_notifications quiet_env sample_summary [] =
     (Inr (), [Get_updates ''TOKEN'', Log (Found_users 0), Log No_users_found])"
  by (simp add: send_telegram_notifications_def get_chat_ids_def quiet_env_def calm_env_def
      http_json_def chat_ids_of_def no_updates_def bind_def)

theorem notify_without_subscribers_counterexample:
  "fst (get_chat_ids quiet_env ''TOKEN'' []) = [] \<and>
   send_telegram_notifications quiet_env sample_summary [] =
     (Inr (), [Get_updates ''TOKEN'', Log (Found_users 0), Log No_users_found]) \<and>
   network_calls (snd (send_telegram_notifications quiet_env sample_summary [])) =
     [Get_updates ''TOKEN''] \<and>
   Log (Notifications_sent 0 0) \<notin> set (snd (send_telegram_notifications quiet_env sample_summary []))"
proof -
  have "fst (get_chat_ids quiet_env ''TOKEN'' []) = []"
    by (simp add: get_chat_ids_def quiet_env_def calm_env_def
      http_json_def chat_ids_of_def no_updates_def bind_def)
  then show ?thesis
    by (simp add: quiet_notification network_calls_def)
qed

theorem notify_without_subscribers_witness:
  "send_telegram_notifications (calm_env\<lparr>getenv_bot_token := (\<lambda>w. None)\<rparr>) sample_summary [] =
     (Inr (), [Log Bot_token_not_configured]) \<and>
   network_calls (snd (send_telegram_notifications quiet_env sample_summary [])) =
     [Get_updates ''TOKEN'']"
proof -
  have "getenv_bot_token (calm_env\<lparr>getenv_bot_token := (\<lambda>w. None)\<rparr>) [] = None \<or>
        getenv_bot_token (calm_env\<lparr>getenv_bot_token := (\<lambda>w. None)\<rparr>) [] = Some []"
    by simp
  with notify_without_subscribers [where E = "calm_env\<lparr>getenv_bot_token := (\<lambda>w. None)\<rparr>"
      and w = "[]" and daily_data = sample_summary]
  have one: "send_telegram_notifications (calm_env\<lparr>getenv_bot_token := (\<lambda>w. None)\<rparr>) sample_summary [] =
     (Inr (), [] @ [Log Bot_token_not_configured])"
    by blast
  have "getenv_bot_token quiet_env [] = Some ''TOKEN'' \<and> ''TOKEN'' \<noteq> [] \<and>
        fst (get_chat_ids quiet_env ''TOKEN'' []) = []"
    by (simp add: get_chat_ids_def quiet_env_def calm_env_def
      http_json_def chat_ids_of_def no_updates_def bind_def)
  with notify_without_subscribers [where E = quiet_env and w = "[]" and bot_token = "''TOKEN''"
      and daily_data = sample_summary]
  have two: "network_calls (snd (send_telegram_notifications quiet_env sample_summary [])) =
        network_calls [] @ [Get_updates ''TOKEN'']"
    by blast
  from one two show ?thesis
    by (simp add: network_calls_def)
qed

section \<open>Retries of the weather fetch\<close>













section \<open>Archive keys\<close>














section \<open>Isolation of a city's failure\<close>

lemma started_append: "started (w @ v) = started w @ started v"
  by (induction w rule: started.induct) simp_all


lemma silentD:
  assumes "silent m"
  obtains v where "snd (m w) = w @ v" and "started v = []"
  using assms unfolding silent_def by blast

lemma silent_started: "silent m \<Longrightarrow> started (snd (m w)) = started w"
  by (erule silentD [of m w]) (simp add: started_append)

































end
